theory Spec2Isabelle
  imports Complex_Main "HOL-Library.Sublist"
begin

section \<open>Python strings\<close>

text \<open>
  A Python \<open>str\<close> is modelled as a \<open>string\<close>, one \<open>char\<close> per character: a \<open>char\<close> is a
  code point below 256, and the strings of the model are the texts of such code points.
  The string functions below (\<open>strip\<close>, \<open>lower\<close>, \<open>repr\<close>) follow Python on every one of the
  256 code points, ASCII or not.
\<close>

text \<open>\<open>str.isspace\<close>: tab, line feed, vertical tab, form feed, carriage return, the four
  separators 0x1C to 0x1F, the space, and above ASCII the next-line control 0x85 and the
  no-break space 0xA0.\<close>

definition is_space :: "char \<Rightarrow> bool" where
  "is_space c = (c \<in> set [CHR 0x09, CHR 0x0A, CHR 0x0B, CHR 0x0C, CHR 0x0D,
                            CHR 0x1C, CHR 0x1D, CHR 0x1E, CHR 0x1F, CHR 0x20,
                            CHR 0x85, CHR 0xA0])"

text \<open>\<open>s.strip()\<close>: drop the leading and the trailing whitespace.\<close>

definition strip :: "string \<Rightarrow> string" where
  "strip s = rev (dropWhile is_space (rev (dropWhile is_space s)))"

text \<open>\<open>s.lower()\<close>, character by character: the letters A to Z, and the capital letters 0xC0
  to 0xDE other than the multiplication sign 0xD7, whose small letter is 32 further on.
  Every other character is left as it is.\<close>

definition lower_char :: "char \<Rightarrow> char" where
  "lower_char c =
     (case map_of (zip ''ABCDEFGHIJKLMNOPQRSTUVWXYZ'' ''abcdefghijklmnopqrstuvwxyz'') c of
        Some d \<Rightarrow> d
      | None \<Rightarrow>
          if 192 \<le> (of_char c :: nat) \<and> (of_char c :: nat) \<le> 222 \<and> (of_char c :: nat) \<noteq> 215
          then char_of ((of_char c :: nat) + 32)
          else c)"

definition lower :: "string \<Rightarrow> string" where
  "lower s = map lower_char s"

text \<open>\<open>a in b\<close> on strings: \<open>a\<close> occurs in \<open>b\<close> as a contiguous run.\<close>

fun str_in :: "string \<Rightarrow> string \<Rightarrow> bool" where
  "str_in a [] = (a = [])"
| "str_in a (c # cs) = (prefix a (c # cs) \<or> str_in a cs)"

text \<open>\<open>sep.join(xs)\<close>.\<close>

fun join :: "string \<Rightarrow> string list \<Rightarrow> string" where
  "join sep [] = []"
| "join sep [x] = x"
| "join sep (x # y # ys) = x @ sep @ join sep (y # ys)"

text \<open>Decimal digits of a natural number, and \<open>str\<close> of an \<open>int\<close>.\<close>

fun digits :: "nat \<Rightarrow> string" where
  "digits n = (if n < 10 then [''0123456789'' ! n]
               else digits (n div 10) @ [''0123456789'' ! (n mod 10)])"

definition str_int :: "int \<Rightarrow> string" where
  "str_int i = (if i < 0 then ''-'' @ digits (nat (- i)) else digits (nat i))"

text \<open>
  \<open>repr\<close> of a \<open>str\<close>: the quote is the double quote when the text holds a single quote and
  no double quote, the single quote otherwise; the backslash and the chosen quote are
  escaped with a backslash, tab, line feed and carriage return are written \<open>\t\<close>, \<open>\n\<close>,
  \<open>\r\<close>, every other character that is not printable as \<open>\xhh\<close>, and every other
  character as it is. The characters that are not printable are those below 0x20, those
  from 0x7F to 0xA0, and the soft hyphen 0xAD.
\<close>

definition repr_quote :: "string \<Rightarrow> char" where
  "repr_quote s = (if CHR 0x27 \<in> set s \<and> CHR 0x22 \<notin> set s then CHR 0x22 else CHR 0x27)"

definition repr_char :: "char \<Rightarrow> char \<Rightarrow> string" where
  "repr_char q c =
     (if c = q \<or> c = CHR 0x5C then [CHR 0x5C, c]
      else if c = CHR 0x09 then [CHR 0x5C, CHR ''t'']
      else if c = CHR 0x0A then [CHR 0x5C, CHR ''n'']
      else if c = CHR 0x0D then [CHR 0x5C, CHR ''r'']
      else if (of_char c :: nat) < 32 \<or> (127 \<le> (of_char c :: nat) \<and> (of_char c :: nat) \<le> 160)
              \<or> (of_char c :: nat) = 173
        then [CHR 0x5C, CHR ''x'', ''0123456789abcdef'' ! (of_char c div 16),
              ''0123456789abcdef'' ! (of_char c mod 16)]
      else [c])"

definition repr_str :: "string \<Rightarrow> string" where
  "repr_str s = repr_quote s # concat (map (repr_char (repr_quote s)) s) @ [repr_quote s]"

text \<open>\<open>repr\<close> of a list, given the \<open>repr\<close> of its entries.\<close>

definition repr_list :: "string list \<Rightarrow> string" where
  "repr_list entries = ''['' @ join '', '' entries @ '']''"

section \<open>Python values and exceptions\<close>

text \<open>
  A float is \<open>PyFloat q\<close>, the double nearest to the rational \<open>q\<close> (so Python's literal
  \<open>0.6\<close> is \<open>PyFloat (6/10)\<close>), or one of the three special values. The program never
  computes with floats: it builds them from literals and conversions and hands them on.
\<close>

datatype pyfloat = PyFloat rat | PyNaN | PyInf | PyNegInf

datatype pyval =
    PyNone
  | PyBool bool
  | PyInt int
  | PyFlt pyfloat
  | PyStr string
  | PyList "pyval list"
  | PyDict "(string \<times> pyval) list"

datatype exn_class =
    JSONDecodeError | AttributeError | TypeError | ValueError | OverflowError | KeyError
  | RuntimeError | OSError | OtherException
  | ConnectionError | Timeout | HTTPError | RequestsJSONDecodeError | OtherRequestException

text \<open>An exception: its class and the text \<open>str(e)\<close> gives.\<close>

datatype exn = Exn exn_class string

fun exn_str :: "exn \<Rightarrow> string" where
  "exn_str (Exn c m) = m"

text \<open>The classes below \<open>requests.RequestException\<close>.\<close>

fun is_request_exception :: "exn \<Rightarrow> bool" where
  "is_request_exception (Exn c m) =
     (c \<in> set [ConnectionError, Timeout, HTTPError, RequestsJSONDecodeError,
                OtherRequestException])"

text \<open>The name of a value's type, as it appears in messages, and a text between single
  quotes.\<close>

fun type_name :: "pyval \<Rightarrow> string" where
  "type_name PyNone = ''NoneType''"
| "type_name (PyBool b) = ''bool''"
| "type_name (PyInt i) = ''int''"
| "type_name (PyFlt f) = ''float''"
| "type_name (PyStr s) = ''str''"
| "type_name (PyList vs) = ''list''"
| "type_name (PyDict kvs) = ''dict''"

definition quoted :: "string \<Rightarrow> string" where
  "quoted s = CHR 0x27 # s @ [CHR 0x27]"

definition no_attribute :: "pyval \<Rightarrow> string \<Rightarrow> exn" where
  "no_attribute v name =
     Exn AttributeError (quoted (type_name v) @ '' object has no attribute '' @ quoted name)"

text \<open>
  The library functions the program calls and this repository does not define:
  \<open>json.loads\<close>, \<open>float\<close> on a \<open>str\<close>, and \<open>repr\<close> of a float. They are parameters of the
  model; a theorem holds for whatever they compute.
\<close>

record pylib =
  json_loads :: "string \<Rightarrow> exn + pyval"
  float_of_str :: "string \<Rightarrow> exn + pyfloat"
  float_repr :: "pyfloat \<Rightarrow> string"

text \<open>\<open>repr(v)\<close> and \<open>str(v)\<close> of a value.\<close>

fun py_repr :: "pylib \<Rightarrow> pyval \<Rightarrow> string" where
  "py_repr lib PyNone = ''None''"
| "py_repr lib (PyBool b) = (if b then ''True'' else ''False'')"
| "py_repr lib (PyInt i) = str_int i"
| "py_repr lib (PyFlt f) = float_repr lib f"
| "py_repr lib (PyStr s) = repr_str s"
| "py_repr lib (PyList vs) = repr_list (map (py_repr lib) vs)"
| "py_repr lib (PyDict kvs) =
     ''{'' @ join '', '' (map (\<lambda>kv. repr_str (fst kv) @ '': '' @ py_repr lib (snd kv)) kvs) @ ''}''"

definition py_str :: "pylib \<Rightarrow> pyval \<Rightarrow> string" where
  "py_str lib v = (case v of PyStr s \<Rightarrow> s | _ \<Rightarrow> py_repr lib v)"

text \<open>
  \<open>float(v)\<close>: a float is returned as it is, a bool and an int are converted (an int of
  magnitude \<open>2^1024 - 2^970\<close> or more raises \<open>OverflowError\<close>), a \<open>str\<close> is parsed by the
  library, and \<open>None\<close>, a list and a dict raise \<open>TypeError\<close>.
\<close>

definition py_float :: "pylib \<Rightarrow> pyval \<Rightarrow> exn + pyfloat" where
  "py_float lib v =
     (case v of
        PyFlt f \<Rightarrow> Inr f
      | PyBool b \<Rightarrow> Inr (PyFloat (if b then 1 else 0))
      | PyInt i \<Rightarrow>
          (if \<bar>i\<bar> \<ge> 2 ^ 1024 - 2 ^ 970
           then Inl (Exn OverflowError ''int too large to convert to float'')
           else Inr (PyFloat (of_int i)))
      | PyStr s \<Rightarrow> float_of_str lib s
      | _ \<Rightarrow> Inl (Exn TypeError (''float() argument must be a string or a real number, not ''
                                  @ quoted (type_name v))))"

text \<open>\<open>d.get(key, default)\<close>: only a dict has the method; any other value raises
  \<open>AttributeError\<close>.\<close>

definition dict_get :: "(string \<times> pyval) list \<Rightarrow> string \<Rightarrow> pyval \<Rightarrow> pyval" where
  "dict_get kvs key dflt = (case map_of kvs key of Some v \<Rightarrow> v | None \<Rightarrow> dflt)"

definition py_get :: "pyval \<Rightarrow> string \<Rightarrow> pyval \<Rightarrow> exn + pyval" where
  "py_get d key dflt =
     (case d of
        PyDict kvs \<Rightarrow> Inr (dict_get kvs key dflt)
      | _ \<Rightarrow> Inl (no_attribute d ''get''))"

text \<open>\<open>v.strip()\<close> on a value: only a \<open>str\<close> has the method.\<close>

definition py_strip :: "pyval \<Rightarrow> exn + string" where
  "py_strip v =
     (case v of
        PyStr s \<Rightarrow> Inr (strip s)
      | _ \<Rightarrow> Inl (no_attribute v ''strip''))"

text \<open>Truth value of a Python value (\<open>if v\<close>, \<open>v or w\<close>).\<close>

fun truthy :: "pyval \<Rightarrow> bool" where
  "truthy PyNone = False"
| "truthy (PyBool b) = b"
| "truthy (PyInt i) = (i \<noteq> 0)"
| "truthy (PyFlt f) = (f \<noteq> PyFloat 0)"
| "truthy (PyStr s) = (s \<noteq> [])"
| "truthy (PyList vs) = (vs \<noteq> [])"
| "truthy (PyDict kvs) = (kvs \<noteq> [])"

section \<open>HTTP through \<open>requests\<close>\<close>

record request =
  req_method :: string
  req_url :: string
  req_json :: pyval
  req_timeout :: nat

record response =
  status_code :: nat
  reason :: string
  resp_url :: string
  json_body :: "exn + pyval"

text \<open>\<open>requests.post\<close> either raises (connection refused, timeout, ...) or returns a response.\<close>

datatype http_outcome = Raised exn | Replied response

type_synonym network = "request \<Rightarrow> http_outcome"

text \<open>\<open>resp.raise_for_status()\<close> raises \<open>HTTPError\<close> for a status from 400 to 599, and for no
  other status.\<close>

definition raise_for_status :: "response \<Rightarrow> exn + unit" where
  "raise_for_status r =
     (if 400 \<le> status_code r \<and> status_code r < 500
        then Inl (Exn HTTPError (digits (status_code r) @ '' Client Error: '' @ reason r
                                 @ '' for url: '' @ resp_url r))
      else if 500 \<le> status_code r \<and> status_code r < 600
        then Inl (Exn HTTPError (digits (status_code r) @ '' Server Error: '' @ reason r
                                 @ '' for url: '' @ resp_url r))
      else Inr ())"

section \<open>\<open>demo.py\<close>: the text classifier\<close>

definition OLLAMA_BASE :: string where
  "OLLAMA_BASE = ''http://127.0.0.1:11434''"

definition DEFAULT_MODEL :: string where
  "DEFAULT_MODEL = ''llama3.1:8b''"

text \<open>A few-shot example: a dict with the keys \<open>text\<close> and \<open>label\<close>.\<close>

record few_shot =
  shot_text :: string
  shot_label :: string

subsection \<open>The prompt (lines 24 to 34)\<close>

text \<open>The second line formats the list of labels with an f-string, which writes \<open>repr\<close> of
  the list.\<close>

definition instruction_clause :: "string list \<Rightarrow> string" where
  "instruction_clause label_list =
     ''Choose exactly one label from '' @ repr_list (map repr_str label_list) @ ''.''"

definition system_block :: "string list \<Rightarrow> string" where
  \<open>system_block label_list =
     ''You are an expert email text classifier.\<newline>''
     @ instruction_clause label_list @ ''\<newline>''
     @ ''Respond ONLY as compact JSON: {"label":"<one>","confidence":0-1}.\<newline>''
     @ ''Do not include extra keys or explanations''\<close>

definition shots_block :: "few_shot list \<Rightarrow> string" where
  "shots_block few_shots =
     join ''\<newline>''
       (map (\<lambda>s. ''Text: '' @ shot_text s @ ''\<newline>Label: '' @ shot_label s) few_shots)"

definition user_block :: "string \<Rightarrow> string" where
  "user_block text = ''Text: '' @ text @ ''\<newline>Label:''"

definition build_prompt :: "string list \<Rightarrow> string \<Rightarrow> few_shot list \<Rightarrow> string" where
  "build_prompt label_list text few_shots =
     strip (''<<SYS>>'' @ system_block label_list @ ''<<SYS>>\<newline>\<newline>''
            @ shots_block few_shots @ ''\<newline>\<newline>'' @ user_block text)"

subsection \<open>The request (lines 37 to 46)\<close>

definition classify_request :: "string \<Rightarrow> string \<Rightarrow> request" where
  "classify_request model prompt =
     \<lparr> req_method = ''POST'',
       req_url = OLLAMA_BASE @ ''/api/generate'',
       req_json = PyDict
         [(''model'', PyStr model),
          (''prompt'', PyStr prompt),
          (''options'', PyDict [(''temperature'', PyFlt (PyFloat 0)), (''num_ctx'', PyInt 2048)]),
          (''stream'', PyBool False)],
       req_timeout = 120 \<rparr>"

definition not_found_message :: string where
  "not_found_message =
     ''Ollama API path not found (404). Is the server running at '' @ OLLAMA_BASE
     @ ''? Try `ollama serve` or set OLLAMA_BASE.''"

subsection \<open>Reading the reply (lines 58 to 73)\<close>

text \<open>The body of the \<open>try\<close>: any of the four steps may raise.\<close>

definition parse_reply :: "pylib \<Rightarrow> string \<Rightarrow> exn + (string \<times> pyfloat)" where
  "parse_reply lib out =
     (case json_loads lib out of
        Inl e \<Rightarrow> Inl e
      | Inr data \<Rightarrow>
          (case py_get data ''label'' (PyStr ''Other'') of
             Inl e \<Rightarrow> Inl e
           | Inr l \<Rightarrow>
               (case py_get data ''confidence'' (PyFlt (PyFloat (5 / 10))) of
                  Inl e \<Rightarrow> Inl e
                | Inr c \<Rightarrow>
                    (case py_float lib c of
                       Inl e \<Rightarrow> Inl e
                     | Inr confidence \<Rightarrow> Inr (py_str lib l, confidence)))))"

text \<open>The \<open>except\<close> branch: the loop over the labels, started from \<open>("Other", 0.3)\<close>, left
  at the first label found.\<close>

fun scan_labels :: "string \<Rightarrow> string list \<Rightarrow> string \<times> pyfloat" where
  "scan_labels low [] = (''Other'', PyFloat (3 / 10))"
| "scan_labels low (L # Ls) =
     (if str_in (lower L) low then (L, PyFloat (6 / 10)) else scan_labels low Ls)"

definition interpret_reply :: "pylib \<Rightarrow> string \<Rightarrow> string list \<Rightarrow> string \<times> pyfloat" where
  "interpret_reply lib out label_list =
     (case parse_reply lib out of
        Inr r \<Rightarrow> r
      | Inl e \<Rightarrow> scan_labels (lower out) label_list)"

subsection \<open>\<open>classify_text\<close>\<close>

text \<open>
  The function returns the requests it has sent and either the triple
  \<open>(label, confidence, raw)\<close> or the exception that leaves it. The request and the status
  checks are inside the first \<open>try\<close>; reading the body (line 56) is outside of it.
\<close>

definition read_response :: "response \<Rightarrow> exn + string" where
  "read_response resp =
     (case json_body resp of
        Inl e \<Rightarrow> Inl e
      | Inr body \<Rightarrow>
          (case py_get body ''response'' (PyStr []) of
             Inl e \<Rightarrow> Inl e
           | Inr r \<Rightarrow> py_strip r))"

definition request_failed :: "exn \<Rightarrow> string \<times> pyfloat \<times> string" where
  "request_failed e = (''ERROR'', PyFloat 0, ''Request failed: '' @ exn_str e)"

definition classify_text ::
  "pylib \<Rightarrow> network \<Rightarrow> string \<Rightarrow> string \<Rightarrow> string list \<Rightarrow> few_shot list option
   \<Rightarrow> request list \<times> (exn + string \<times> pyfloat \<times> string)" where
  "classify_text lib net model text label_list few_shots =
     (let shots = (case few_shots of None \<Rightarrow> [] | Some fs \<Rightarrow> fs);
          prompt = build_prompt label_list text shots;
          req = classify_request model prompt
      in ([req],
          (case net req of
             Raised e \<Rightarrow> Inr (request_failed e)
           | Replied resp \<Rightarrow>
               if status_code resp = 404
               then Inr (request_failed (Exn RuntimeError not_found_message))
               else
                 (case raise_for_status resp of
                    Inl e \<Rightarrow> Inr (request_failed e)
                  | Inr u \<Rightarrow>
                      (case read_response resp of
                         Inl e \<Rightarrow> Inl e
                       | Inr out \<Rightarrow>
                           (case interpret_reply lib out label_list of
                              (label, confidence) \<Rightarrow> Inr (label, confidence, out)))))))"

text \<open>The default \<open>few_shots=None\<close> stands for the empty list; \<open>request_of\<close> is the request a
  call builds from its arguments.\<close>

definition shots_of :: "few_shot list option \<Rightarrow> few_shot list" where
  "shots_of few_shots = (case few_shots of None \<Rightarrow> [] | Some fs \<Rightarrow> fs)"

definition request_of ::
  "string \<Rightarrow> string \<Rightarrow> string list \<Rightarrow> few_shot list option \<Rightarrow> request" where
  "request_of model text label_list few_shots =
     classify_request model (build_prompt label_list text (shots_of few_shots))"

text \<open>A confidence between 0 and 1; the three special floats are not.\<close>

definition in_unit_interval :: "pyfloat \<Rightarrow> bool" where
  "in_unit_interval f = (case f of PyFloat q \<Rightarrow> 0 \<le> q \<and> q \<le> 1 | _ \<Rightarrow> False)"

text \<open>
  A label whose \<open>repr\<close> is the label between single quotes, for certain: printable ASCII
  without single quote and backslash. \<open>occurrences a b\<close> counts the places of \<open>b\<close> where \<open>a\<close> starts.
\<close>

definition plain_label :: "string \<Rightarrow> bool" where
  "plain_label L =
     list_all (\<lambda>c. 32 \<le> (of_char c :: nat) \<and> (of_char c :: nat) < 127
                    \<and> c \<noteq> CHR 0x27 \<and> c \<noteq> CHR 0x5C) L"

fun occurrences :: "string \<Rightarrow> string \<Rightarrow> nat" where
  "occurrences a [] = (if a = [] then 1 else 0)"
| "occurrences a (c # cs) = (if prefix a (c # cs) then 1 else 0) + occurrences a cs"

subsection \<open>Saving a labelled item (lines 149 to 171)\<close>

text \<open>What the page shows, for both scripts.\<close>

datatype ui =
    St_error string
  | St_success string
  | St_warning string
  | St_info string
  | St_subheader string
  | St_write string
  | St_image_caption string nat nat string
  | St_image

text \<open>
  The file system: the regular files with their contents, the other paths that exist
  (directories), and the paths \<open>open(path, "a")\<close> refuses, with the exception it raises.
\<close>

record filesystem =
  files :: "string \<rightharpoonup> string"
  others :: "string set"
  open_error :: "string \<Rightarrow> exn option"

definition path_exists :: "filesystem \<Rightarrow> string \<Rightarrow> bool" where
  "path_exists fs p = (files fs p \<noteq> None \<or> p \<in> others fs)"

text \<open>
  The \<open>csv\<close> writer with its default dialect; the content of a file is held as text, which
  the UTF-8 encoding of \<open>open\<close> stores one to one: a field holding a comma, a double quote, a
  carriage return or a line feed is put between double quotes with its double quotes
  doubled; a row of one empty field is written as two double quotes; fields are joined by
  commas and the row ends with carriage return and line feed.
\<close>

definition csv_special :: "char \<Rightarrow> bool" where
  "csv_special c = (c \<in> set [CHR '','', CHR 0x22, CHR 0x0D, CHR 0x0A])"

definition csv_field :: "string \<Rightarrow> string" where
  "csv_field s =
     (if list_ex csv_special s
      then CHR 0x22 # concat (map (\<lambda>c. if c = CHR 0x22 then [c, c] else [c]) s) @ [CHR 0x22]
      else s)"

definition csv_row :: "string list \<Rightarrow> string" where
  "csv_row vals =
     (if vals = [[]] then [CHR 0x22, CHR 0x22] else join '','' (map csv_field vals))
     @ [CHR 0x0D, CHR 0x0A]"

definition fieldnames :: "string list" where
  "fieldnames = [''text'', ''label'', ''subject'', ''from'']"

text \<open>\<open>DictWriter.writerow\<close>: the values of the row's dict in the order of the field names,
  the empty string for a missing key.\<close>

definition dict_row :: "(string \<times> string) list \<Rightarrow> string" where
  "dict_row rowdict =
     csv_row (map (\<lambda>k. case map_of rowdict k of Some v \<Rightarrow> v | None \<Rightarrow> []) fieldnames)"

definition save_item ::
  "filesystem \<Rightarrow> string \<Rightarrow> string \<Rightarrow> string option \<Rightarrow> string \<Rightarrow> string
   \<Rightarrow> filesystem \<times> ui list" where
  "save_item fs csv_path email_text chosen_label subj sender =
     (if strip email_text = [] then (fs, [St_error ''Please paste some text before saving.''])
      else
        (case chosen_label of
           None \<Rightarrow> (fs, [St_error ''Please select a label.''])
         | Some label \<Rightarrow>
             if label = [] then (fs, [St_error ''Please select a label.''])
             else
               (let new_file = \<not> path_exists fs csv_path in
                case open_error fs csv_path of
                  Some e \<Rightarrow> (fs, [St_error (''Failed to save: '' @ exn_str e)])
                | None \<Rightarrow>
                    (let old = (case files fs csv_path of None \<Rightarrow> [] | Some c \<Rightarrow> c);
                         header = (if new_file then csv_row fieldnames else []);
                         row = dict_row [(''text'', strip email_text),
                                         (''label'', label),
                                         (''subject'', strip subj),
                                         (''from'', strip sender)]
                     in (fs\<lparr>files := (files fs)(csv_path \<mapsto> old @ header @ row)\<rparr>,
                         [St_success (''Saved to '' @ csv_path)])))))"

section \<open>\<open>image.py\<close>: the photo caption page\<close>

definition MODEL_NAME :: string where
  "MODEL_NAME = ''qwen2.5vl:3b''"

text \<open>
  An image as the page uses it: its size, its format, and its EXIF entries (tag and the
  text of the value). The imaging library is a parameter: opening the bytes, fixing the
  orientation and saving as an RGB JPEG of quality 95 may each raise; so is base64.
\<close>

record image =
  img_size :: "nat \<times> nat"
  img_format :: "string option"
  img_exif :: "(nat \<times> string) list"

record imglib =
  image_open :: "string \<Rightarrow> exn + image"
  exif_transpose :: "image \<Rightarrow> exn + image"
  save_rgb_jpeg :: "image \<Rightarrow> exn + string"
  b64encode :: "string \<Rightarrow> string"

record upload =
  up_name :: string
  up_bytes :: string

text \<open>Lines 25 to 27: both calls are inside the \<open>try\<close>.\<close>

definition read_image :: "imglib \<Rightarrow> string \<Rightarrow> exn + image" where
  "read_image lib raw_bytes =
     (case image_open lib raw_bytes of
        Inl e \<Rightarrow> Inl e
      | Inr img \<Rightarrow> exif_transpose lib img)"

text \<open>Lines 33 to 52: the caption line, the picture, and the EXIF entries with one of the
  seven common tags.\<close>

definition exif_lines :: "image \<Rightarrow> ui list" where
  "exif_lines img =
     (if img_exif img \<noteq> []
      then
        (let items = filter (\<lambda>kv. fst kv \<in> set [256, 257, 271, 272, 274, 306, 36867])
                            (img_exif img)
         in if items \<noteq> []
            then map (\<lambda>kv. St_write (digits (fst kv) @ '': '' @ snd kv)) items
            else [St_write ''No common EXIF fields found.''])
      else [St_write ''No EXIF metadata found.''])"

definition show_image :: "string \<Rightarrow> image \<Rightarrow> ui list" where
  "show_image name img =
     [St_image_caption name (fst (img_size img)) (snd (img_size img))
        (case img_format img of None \<Rightarrow> ''Unknown'' | Some f \<Rightarrow> if f = [] then ''Unknown'' else f),
      St_image]
     @ exif_lines img"

text \<open>Lines 69 to 78.\<close>

definition caption_request :: "string \<Rightarrow> string \<Rightarrow> request" where
  "caption_request prompt img_b64 =
     \<lparr> req_method = ''POST'',
       req_url = OLLAMA_BASE @ ''/api/generate'',
       req_json = PyDict
         [(''model'', PyStr MODEL_NAME),
          (''prompt'', PyStr prompt),
          (''images'', PyList [PyStr img_b64]),
          (''stream'', PyBool False)],
       req_timeout = 120 \<rparr>"

text \<open>Lines 69 to 85, the body of the \<open>try\<close>: what is shown, or the exception raised.\<close>

definition caption_reply :: "http_outcome \<Rightarrow> exn + ui list" where
  "caption_reply outcome =
     (case outcome of
        Raised e \<Rightarrow> Inl e
      | Replied r \<Rightarrow>
          (case raise_for_status r of
             Inl e \<Rightarrow> Inl e
           | Inr u \<Rightarrow>
               (case json_body r of
                  Inl e \<Rightarrow> Inl e
                | Inr body \<Rightarrow>
                    (case py_get body ''response'' PyNone of
                       Inl e \<Rightarrow> Inl e
                     | Inr v \<Rightarrow>
                         (case py_strip (if truthy v then v else PyStr []) of
                            Inl e \<Rightarrow> Inl e
                          | Inr caption \<Rightarrow>
                              if caption \<noteq> []
                              then Inr [St_subheader ''Caption'', St_write caption]
                              else Inr [St_warning ''No caption returned.''])))))"

text \<open>
  One run of the page from line 20 on, given the uploaded file, the text of the prompt
  field and whether the button was pressed: what is shown, the requests sent, and the
  exception that ends the run, if one escapes. \<open>st.stop()\<close> ends the run with nothing more
  shown; only a \<open>requests.RequestException\<close> is caught around the request.
\<close>

definition caption_page ::
  "imglib \<Rightarrow> network \<Rightarrow> upload option \<Rightarrow> string \<Rightarrow> bool
   \<Rightarrow> ui list \<times> request list \<times> exn option" where
  "caption_page lib net uploaded prompt pressed =
     (case uploaded of
        None \<Rightarrow>
          ([St_info ''Drop an image above or click to browse. iPhone/Android rotations are fixed automatically.''],
           [], None)
      | Some up \<Rightarrow>
          (case read_image lib (up_bytes up) of
             Inl e \<Rightarrow> ([St_error (''Could not read that image: '' @ exn_str e)], [], None)
           | Inr img \<Rightarrow>
               (case save_rgb_jpeg lib img of
                  Inl e \<Rightarrow> (show_image (up_name up) img, [], Some e)
                | Inr jpeg \<Rightarrow>
                    if pressed
                    then
                      (let req = caption_request prompt (b64encode lib jpeg) in
                       case caption_reply (net req) of
                         Inr shown \<Rightarrow> (show_image (up_name up) img @ shown, [req], None)
                       | Inl e \<Rightarrow>
                           if is_request_exception e
                           then (show_image (up_name up) img
                                 @ [St_error (''Ollama request failed: '' @ exn_str e)],
                                 [req], None)
                           else (show_image (up_name up) img, [req], Some e))
                    else (show_image (up_name up) img, [], None))))"

section \<open>Sample surroundings\<close>

text \<open>A library that decodes the texts of a table and rejects every other text, and a
  network that gives the same outcome to every request.\<close>

definition table_lib :: "(string \<times> pyval) list \<Rightarrow> pylib" where
  "table_lib t =
     \<lparr> json_loads = (\<lambda>s. case map_of t s of
                             Some v \<Rightarrow> Inr v
                           | None \<Rightarrow> Inl (Exn JSONDecodeError ''Expecting value: line 1 column 1 (char 0)'')),
       float_of_str = (\<lambda>s. Inl (Exn ValueError ''could not convert string to float'')),
       float_repr = (\<lambda>f. ''?'') \<rparr>"

definition always :: "http_outcome \<Rightarrow> network" where
  "always outcome = (\<lambda>req. outcome)"

text \<open>A reply with status 200 and the given JSON body.\<close>

definition ok_response :: "pyval \<Rightarrow> response" where
  "ok_response body =
     \<lparr> status_code = 200, reason = ''OK'', resp_url = OLLAMA_BASE @ ''/api/generate'',
       json_body = Inr body \<rparr>"

text \<open>A reply of the endpoint with the given status, reason and body.\<close>

definition reply_with_status :: "nat \<Rightarrow> string \<Rightarrow> exn + pyval \<Rightarrow> response" where
  "reply_with_status code why body =
     \<lparr> status_code = code, reason = why, resp_url = OLLAMA_BASE @ ''/api/generate'',
       json_body = body \<rparr>"

text \<open>A disk without files, where every path can be opened.\<close>

definition empty_disk :: filesystem where
  "empty_disk = \<lparr> files = Map.empty, others = {}, open_error = (\<lambda>p. None) \<rparr>"

text \<open>An imaging library that opens the byte strings of a table and rejects every other, and
  an image.\<close>

definition table_imglib :: "(string \<times> image) list \<Rightarrow> imglib" where
  "table_imglib t =
     \<lparr> image_open = (\<lambda>b. case map_of t b of
                             Some img \<Rightarrow> Inr img
                           | None \<Rightarrow> Inl (Exn OSError ''cannot identify image file'')),
       exif_transpose = Inr,
       save_rgb_jpeg = (\<lambda>img. Inr ''JPEG''),
       b64encode = (\<lambda>b. ''SlBFRw=='') \<rparr>"

definition sample_image :: image where
  "sample_image = \<lparr> img_size = (640, 480), img_format = Some ''PNG'', img_exif = [] \<rparr>"

section \<open>Properties of the string functions and of the reply reader\<close>

lemma str_in_sublist: "str_in a b = sublist a b"
  by (induction b) (auto simp: sublist_Cons_right)

lemma scan_labels_first:
  "\<forall>M \<in> set pre. \<not> str_in (lower M) low \<Longrightarrow> str_in (lower L) low
   \<Longrightarrow> scan_labels low (pre @ L # post) = (L, PyFloat (6 / 10))"
  by (induction pre) auto

lemma scan_labels_none:
  "\<forall>M \<in> set label_list. \<not> str_in (lower M) low
   \<Longrightarrow> scan_labels low label_list = (''Other'', PyFloat (3 / 10))"
  by (induction label_list) auto

lemma interpret_reply_fallback:
  "json_loads lib out = Inl e \<Longrightarrow> interpret_reply lib out label_list = scan_labels (lower out) label_list"
  by (simp add: interpret_reply_def parse_reply_def)

lemma classify_text_unfold:
  "classify_text lib net model text label_list few_shots =
     ([request_of model text label_list few_shots],
      (case net (request_of model text label_list few_shots) of
         Raised e \<Rightarrow> Inr (request_failed e)
       | Replied resp \<Rightarrow>
           if status_code resp = 404
           then Inr (request_failed (Exn RuntimeError not_found_message))
           else
             (case raise_for_status resp of
                Inl e \<Rightarrow> Inr (request_failed e)
              | Inr u \<Rightarrow>
                  (case read_response resp of
                     Inl e \<Rightarrow> Inl e
                   | Inr out \<Rightarrow>
                       Inr (fst (interpret_reply lib out label_list),
                            snd (interpret_reply lib out label_list), out)))))"
  by (simp add: classify_text_def request_of_def shots_of_def Let_def split: prod.splits http_outcome.splits sum.splits)

lemma parse_reply_dict:
  "json_loads lib out = Inr (PyDict kvs) \<Longrightarrow>
   parse_reply lib out =
     (case py_float lib (dict_get kvs ''confidence'' (PyFlt (PyFloat (5 / 10)))) of
        Inl e \<Rightarrow> Inl e
      | Inr c \<Rightarrow> Inr (py_str lib (dict_get kvs ''label'' (PyStr ''Other'')), c))"
  by (simp add: parse_reply_def py_get_def)

lemma strip_Nil: "strip [] = []"
  by (simp add: strip_def)

lemma raise_for_status_2xx:
  "200 \<le> status_code resp \<Longrightarrow> status_code resp < 300 \<Longrightarrow> raise_for_status resp = Inr ()"
  by (simp add: raise_for_status_def)

lemma scan_labels_shape:
  "scan_labels low label_list = (label, confidence) \<Longrightarrow>
     (label \<in> set label_list \<and> confidence = PyFloat (6 / 10))
     \<or> (label = ''Other'' \<and> confidence = PyFloat (3 / 10))"
  by (induction label_list) (auto split: if_splits)

lemma interpret_reply_shape:
  "interpret_reply lib out label_list = (label, confidence) \<Longrightarrow>
     parse_reply lib out = Inr (label, confidence)
     \<or> (label \<in> set label_list \<and> confidence = PyFloat (6 / 10))
     \<or> (label = ''Other'' \<and> confidence = PyFloat (3 / 10))"
  by (auto simp: interpret_reply_def split: sum.splits dest: scan_labels_shape)

lemma base_in_not_found: "sublist OLLAMA_BASE (''Request failed: '' @ not_found_message)"
proof -
  have "''Request failed: '' @ not_found_message
          = (''Request failed: '' @ ''Ollama API path not found (404). Is the server running at '')
            @ OLLAMA_BASE @ ''? Try `ollama serve` or set OLLAMA_BASE.''"
    by (simp add: not_found_message_def)
  then show ?thesis
    by (simp only: sublist_appendI)
qed

lemma strip_unchanged:
  assumes "s \<noteq> []" "\<not> is_space (hd s)" "\<not> is_space (last s)"
  shows "strip s = s"
proof -
  from assms have "dropWhile is_space s = s"
    by (cases s) simp_all
  moreover from assms have "dropWhile is_space (rev s) = rev s"
    by (cases "rev s") (simp_all add: last_rev [symmetric] hd_rev)
  ultimately show ?thesis by (simp add: strip_def)
qed

section \<open>Properties of \<open>repr\<close> and of the prompt\<close>

lemma hex_inj:
  "i < 16 \<Longrightarrow> j < 16 \<Longrightarrow> ''0123456789abcdef'' ! i = ''0123456789abcdef'' ! j \<Longrightarrow> i = j"
proof -
  have d: "distinct ''0123456789abcdef''" by simp
  assume "i < 16" "j < 16" "''0123456789abcdef'' ! i = ''0123456789abcdef'' ! j"
  then show ?thesis
    using d nth_eq_iff_index_eq [of "''0123456789abcdef''" i j] by simp
qed

lemma of_char_inj: "(of_char a :: nat) = of_char b \<Longrightarrow> a = b"
  by (metis char_of_char)

lemma hex_pair_inj:
  assumes "''0123456789abcdef'' ! (of_char a div 16) = ''0123456789abcdef'' ! (of_char b div 16)"
    and "''0123456789abcdef'' ! (of_char a mod 16) = ''0123456789abcdef'' ! (of_char b mod 16)"
  shows "a = b"
proof -
  have la: "(of_char a :: nat) < 256" and lb: "(of_char b :: nat) < 256"
    by simp_all
  then have "(of_char a :: nat) div 16 < 16" "(of_char b :: nat) div 16 < 16"
    by (simp_all add: less_mult_imp_div_less)
  with assms(1) have d: "(of_char a :: nat) div 16 = of_char b div 16"
    by (blast intro: hex_inj)
  have "(of_char a :: nat) mod 16 < 16" "(of_char b :: nat) mod 16 < 16"
    by simp_all
  with assms(2) have m: "(of_char a :: nat) mod 16 = of_char b mod 16"
    by (blast intro: hex_inj)
  from d m have "(of_char a :: nat) = of_char b"
    by (metis div_mult_mod_eq)
  then show ?thesis by (rule of_char_inj)
qed

lemma repr_char_code:
  assumes "repr_char q a @ u = repr_char q b @ v" "q = CHR 0x27 \<or> q = CHR 0x22"
  shows "a = b"
proof -
  have esc: "repr_char q c = [c] \<or> hd (repr_char q c) = CHR 0x5C" for c
    by (simp add: repr_char_def)
  have plain: "repr_char q c = [c] \<Longrightarrow> c \<noteq> CHR 0x5C" for c
    by (auto simp: repr_char_def split: if_splits)
  have second: "hd (repr_char q c) = CHR 0x5C \<Longrightarrow>
      (c = q \<or> c = CHR 0x5C) \<and> repr_char q c = [CHR 0x5C, c]
    \<or> c = CHR 0x09 \<and> repr_char q c = [CHR 0x5C, CHR ''t'']
    \<or> c = CHR 0x0A \<and> repr_char q c = [CHR 0x5C, CHR ''n'']
    \<or> c = CHR 0x0D \<and> repr_char q c = [CHR 0x5C, CHR ''r'']
    \<or> repr_char q c = [CHR 0x5C, CHR ''x'', ''0123456789abcdef'' ! (of_char c div 16),
              ''0123456789abcdef'' ! (of_char c mod 16)]" for c
    by (auto simp: repr_char_def split: if_splits)
  show ?thesis
  proof (cases "repr_char q a = [a]")
    case True
    note pa = this
    show ?thesis
    proof (cases "repr_char q b = [b]")
      case True
      with pa assms(1) show ?thesis by simp
    next
      case False
      with esc [of b] have "hd (repr_char q b) = CHR 0x5C" by simp
      moreover have "repr_char q b \<noteq> []" by (simp add: repr_char_def)
      ultimately have "hd (repr_char q b @ v) = CHR 0x5C" by simp
      moreover from assms(1) pa have "hd (repr_char q b @ v) = a" by (metis append_Cons list.sel(1))
      ultimately have "a = CHR 0x5C" by simp
      with plain [OF pa] show ?thesis by simp
    qed
  next
    case False
    with esc [of a] have ha: "hd (repr_char q a) = CHR 0x5C" by simp
    have nea: "repr_char q a \<noteq> []" by (simp add: repr_char_def)
    show ?thesis
    proof (cases "repr_char q b = [b]")
      case True
      from ha nea have "hd (repr_char q a @ u) = CHR 0x5C" by simp
      moreover from assms(1) True have "hd (repr_char q a @ u) = b" by simp
      ultimately have "b = CHR 0x5C" by simp
      with plain [OF True] show ?thesis by simp
    next
      case False
      with esc [of b] have hb: "hd (repr_char q b) = CHR 0x5C" by simp
      from second [OF ha] second [OF hb] assms show ?thesis
        by (elim disjE conjE) (auto dest: hex_pair_inj)
    qed
  qed
qed

lemma repr_quote_cases: "repr_quote s = CHR 0x27 \<or> repr_quote s = CHR 0x22"
  by (simp add: repr_quote_def)

lemma repr_char_not_Nil: "repr_char q c \<noteq> []"
  by (simp add: repr_char_def)

lemma repr_body_inj:
  "q = CHR 0x27 \<or> q = CHR 0x22 \<Longrightarrow>
   concat (map (repr_char q) s) @ u = concat (map (repr_char q) t) @ u \<Longrightarrow> s = t"
proof (induction s arbitrary: t)
  case Nil
  then show ?case
    by (cases t) (simp_all add: repr_char_not_Nil)
next
  case (Cons a s)
  show ?case
  proof (cases t)
    case Nil
    with Cons.prems show ?thesis by (simp add: repr_char_not_Nil)
  next
    case (Cons b t')
    with Cons.prems have eq: "repr_char q a @ (concat (map (repr_char q) s) @ u)
        = repr_char q b @ (concat (map (repr_char q) t') @ u)"
      by simp
    from eq Cons.prems(1) have ab: "a = b" by (rule repr_char_code)
    with eq have "concat (map (repr_char q) s) @ u = concat (map (repr_char q) t') @ u"
      by simp
    with Cons.IH [OF Cons.prems(1)] have "s = t'" by blast
    with ab Cons show ?thesis by simp
  qed
qed

lemma repr_str_inj: "repr_str s = repr_str t \<Longrightarrow> s = t"
proof -
  assume eq: "repr_str s = repr_str t"
  then have q: "repr_quote s = repr_quote t"
    by (simp add: repr_str_def)
  with eq have "concat (map (repr_char (repr_quote s)) s) @ [repr_quote s]
      = concat (map (repr_char (repr_quote s)) t) @ [repr_quote s]"
    by (simp add: repr_str_def)
  with repr_quote_cases [of s] show ?thesis
    by (rule repr_body_inj)
qed

lemma distinct_repr: "distinct label_list \<Longrightarrow> distinct (map repr_str label_list)"
  by (simp add: distinct_map inj_on_def) (blast dest: repr_str_inj)

lemma repr_char_plain:
  assumes "32 \<le> (of_char c :: nat)" "(of_char c :: nat) < 127" "c \<noteq> CHR 0x27" "c \<noteq> CHR 0x5C"
  shows "repr_char (CHR 0x27) c = [c]"
proof -
  have "c \<noteq> CHR 0x09"
  proof
    assume "c = CHR 0x09"
    then have "(of_char c :: nat) = 9" by simp
    with assms(1) show False by simp
  qed
  moreover have "c \<noteq> CHR 0x0A"
  proof
    assume "c = CHR 0x0A"
    then have "(of_char c :: nat) = 10" by simp
    with assms(1) show False by simp
  qed
  moreover have "c \<noteq> CHR 0x0D"
  proof
    assume "c = CHR 0x0D"
    then have "(of_char c :: nat) = 13" by simp
    with assms(1) show False by simp
  qed
  moreover have "c \<noteq> CHR 0x7F"
  proof
    assume "c = CHR 0x7F"
    then have "(of_char c :: nat) = 127" by simp
    with assms(2) show False by simp
  qed
  ultimately show ?thesis
    using assms by (simp add: repr_char_def)
qed

lemma repr_str_plain:
  assumes "plain_label L"
  shows "repr_str L = [CHR 0x27] @ L @ [CHR 0x27]"
proof -
  from assms have noq: "CHR 0x27 \<notin> set L"
    by (auto simp: plain_label_def list_all_iff)
  then have q: "repr_quote L = CHR 0x27"
    by (simp add: repr_quote_def)
  have "repr_char (CHR 0x27) c = [c]" if "c \<in> set L" for c
  proof -
    from that assms have "32 \<le> (of_char c :: nat)" "(of_char c :: nat) < 127"
      "c \<noteq> CHR 0x27" "c \<noteq> CHR 0x5C"
      by (simp_all add: plain_label_def list_all_iff)
    then show ?thesis by (rule repr_char_plain)
  qed
  then have "concat (map (repr_char (CHR 0x27)) L) = L"
    by (induction L) simp_all
  with q show ?thesis by (simp add: repr_str_def)
qed

lemma sublist_after: "sublist x b \<Longrightarrow> sublist x (a @ b)"
  unfolding sublist_def by (metis append.assoc)

lemma sublist_before: "sublist x a \<Longrightarrow> sublist x (a @ b)"
  unfolding sublist_def by (metis append.assoc)

lemma join_contains: "x \<in> set xs \<Longrightarrow> sublist x (join sep xs)"
proof (induction sep xs rule: join.induct)
  case (1 sep)
  then show ?case by simp
next
  case (2 sep y)
  then show ?case by simp
next
  case (3 sep y z zs)
  show ?case
  proof (cases "x = y")
    case True
    have "sublist y (y @ (sep @ join sep (z # zs)))"
      by (rule sublist_append_rightI)
    with True show ?thesis by simp
  next
    case False
    with 3 have "sublist x (join sep (z # zs))" by simp
    then have "sublist x ((y @ sep) @ join sep (z # zs))"
      by (rule sublist_after)
    then show ?thesis by simp
  qed
qed

lemma clause_in_system: "sublist (instruction_clause label_list) (system_block label_list)"
  unfolding system_block_def by (rule sublist_appendI)

lemma entry_in_clause:
  assumes "L \<in> set label_list"
  shows "sublist (repr_str L) (instruction_clause label_list)"
proof -
  from assms have "repr_str L \<in> set (map repr_str label_list)" by simp
  then have "sublist (repr_str L) (join '', '' (map repr_str label_list))"
    by (rule join_contains)
  then have "sublist (repr_str L) (join '', '' (map repr_str label_list) @ '']'')"
    by (rule sublist_before)
  then have "sublist (repr_str L) (''['' @ join '', '' (map repr_str label_list) @ '']'')"
    by (rule sublist_after)
  then have "sublist (repr_str L) (repr_list (map repr_str label_list))"
    by (simp only: repr_list_def)
  then have "sublist (repr_str L) (repr_list (map repr_str label_list) @ ''.'')"
    by (rule sublist_before)
  then show ?thesis
    unfolding instruction_clause_def by (rule sublist_after)
qed

lemma build_prompt_eq:
  "build_prompt label_list text few_shots =
     ''<<SYS>>'' @ system_block label_list @ ''<<SYS>>'' @ ''\<newline>\<newline>''
     @ shots_block few_shots @ ''\<newline>\<newline>'' @ ''Text: '' @ text @ ''\<newline>Label:''"
proof -
  let ?p = "''<<SYS>>'' @ system_block label_list @ ''<<SYS>>\<newline>\<newline>''
            @ shots_block few_shots @ ''\<newline>\<newline>'' @ user_block text"
  have "?p \<noteq> []" by simp
  moreover have "\<not> is_space (hd ?p)" by (simp add: is_space_def)
  moreover have "last ?p = CHR '':''" by (simp add: user_block_def)
  then have "\<not> is_space (last ?p)" by (simp add: is_space_def)
  ultimately have "strip ?p = ?p" by (rule strip_unchanged)
  then show ?thesis by (simp add: build_prompt_def user_block_def)
qed

lemma occurrences_0: "occurrences a b = 0 \<longleftrightarrow> \<not> sublist a b"
  by (induction b) (auto simp: sublist_Cons_right)

section \<open>Properties of the CSV writer\<close>

lemma header_row: "csv_row fieldnames = ''text,label,subject,from'' @ [CHR 0x0D, CHR 0x0A]"
  by (simp add: csv_row_def fieldnames_def csv_field_def csv_special_def)

lemma dict_row_values:
  "dict_row [(''text'', a), (''label'', b), (''subject'', c), (''from'', d)] = csv_row [a, b, c, d]"
  by (simp add: dict_row_def fieldnames_def)

lemma save_item_new:
  assumes "\<not> path_exists fs p" "open_error fs p = None" "strip t \<noteq> []" "l \<noteq> []"
  shows "save_item fs p t (Some l) s f =
     (fs\<lparr>files := (files fs)(p \<mapsto> csv_row fieldnames @ csv_row [strip t, l, strip s, strip f])\<rparr>,
      [St_success (''Saved to '' @ p)])"
proof -
  from assms(1) have "files fs p = None" by (simp add: path_exists_def)
  with assms show ?thesis
    by (simp add: save_item_def dict_row_values Let_def)
qed

lemma save_item_old:
  assumes "files fs p = Some old" "open_error fs p = None" "strip t \<noteq> []" "l \<noteq> []"
  shows "save_item fs p t (Some l) s f =
     (fs\<lparr>files := (files fs)(p \<mapsto> old @ csv_row [strip t, l, strip s, strip f])\<rparr>,
      [St_success (''Saved to '' @ p)])"
  using assms by (simp add: save_item_def dict_row_values Let_def path_exists_def)

section \<open>The claims\<close>

text \<open>
  C3. When \<open>json.loads\<close> raises on the raw reply, the result is the first label of the
  list, in the caller's order, whose lower-cased form occurs in the lower-cased reply, with
  confidence 0.6, and \<open>("Other", 0.3)\<close> when no label occurs. In particular the reply
  \<open>This looks like Spam to me\<close> with the labels \<open>Billing\<close>, \<open>Spam\<close> gives \<open>("Spam", 0.6)\<close>.
\<close>

theorem fallback_first_match:
  "(\<forall>e. json_loads lib out = Inl e \<longrightarrow>
      (\<forall>pre L post.
          label_list = pre @ L # post \<and> sublist (lower L) (lower out)
          \<and> (\<forall>M \<in> set pre. \<not> sublist (lower M) (lower out))
          \<longrightarrow> interpret_reply lib out label_list = (L, PyFloat (6 / 10)))
      \<and> ((\<forall>M \<in> set label_list. \<not> sublist (lower M) (lower out))
          \<longrightarrow> interpret_reply lib out label_list = (''Other'', PyFloat (3 / 10))))
   \<and> (\<forall>e. json_loads lib ''This looks like Spam to me'' = Inl e \<longrightarrow>
        interpret_reply lib ''This looks like Spam to me'' [''Billing'', ''Spam'']
          = (''Spam'', PyFloat (6 / 10)))"
proof (intro conjI allI impI)
  fix e pre L post
  assume "json_loads lib out = Inl e"
    and "label_list = pre @ L # post \<and> sublist (lower L) (lower out)
          \<and> (\<forall>M \<in> set pre. \<not> sublist (lower M) (lower out))"
  then show "interpret_reply lib out label_list = (L, PyFloat (6 / 10))"
    by (simp add: interpret_reply_fallback scan_labels_first str_in_sublist)
next
  fix e
  assume "json_loads lib out = Inl e"
    and "\<forall>M \<in> set label_list. \<not> sublist (lower M) (lower out)"
  then show "interpret_reply lib out label_list = (''Other'', PyFloat (3 / 10))"
    by (simp add: interpret_reply_fallback scan_labels_none str_in_sublist)
next
  fix e
  assume "json_loads lib ''This looks like Spam to me'' = Inl e"
  then show "interpret_reply lib ''This looks like Spam to me'' [''Billing'', ''Spam'']
          = (''Spam'', PyFloat (6 / 10))"
    by (simp add: interpret_reply_fallback lower_def lower_char_def)
qed

theorem fallback_first_match_witness:
  "json_loads (table_lib []) ''I think: SPAM'' = Inl (Exn JSONDecodeError ''Expecting value: line 1 column 1 (char 0)'')
   \<and> [''Billing'', ''Spam'', ''Pam''] = [''Billing''] @ ''Spam'' # [''Pam'']
   \<and> sublist (lower ''Spam'') (lower ''I think: SPAM'')
   \<and> \<not> sublist (lower ''Billing'') (lower ''I think: SPAM'')
   \<and> interpret_reply (table_lib []) ''I think: SPAM'' [''Billing'', ''Spam'', ''Pam'']
        = (''Spam'', PyFloat (6 / 10))
   \<and> \<not> sublist (lower ''Sales'') (lower ''I think: SPAM'')
   \<and> interpret_reply (table_lib []) ''I think: SPAM'' [''Billing'', ''Sales'']
        = (''Other'', PyFloat (3 / 10))
   \<and> json_loads (table_lib []) ''This looks like Spam to me''
        = Inl (Exn JSONDecodeError ''Expecting value: line 1 column 1 (char 0)'')
   \<and> interpret_reply (table_lib []) ''This looks like Spam to me'' [''Billing'', ''Spam'']
        = (''Spam'', PyFloat (6 / 10))
   \<and> lower [CHR ''C'', CHR ''A'', CHR ''F'', CHR 0xC9] = [CHR ''c'', CHR ''a'', CHR ''f'', CHR 0xE9]
   \<and> sublist (lower [CHR ''C'', CHR ''A'', CHR ''F'', CHR 0xC9])
         (lower [CHR ''u'', CHR ''n'', CHR '' '', CHR ''c'', CHR ''a'', CHR ''f'', CHR 0xE9,
                 CHR '' '', CHR ''+'', CHR '' '', CHR ''s'', CHR ''p'', CHR ''a'', CHR ''m''])
   \<and> interpret_reply (table_lib [])
         [CHR ''u'', CHR ''n'', CHR '' '', CHR ''c'', CHR ''a'', CHR ''f'', CHR 0xE9,
          CHR '' '', CHR ''+'', CHR '' '', CHR ''s'', CHR ''p'', CHR ''a'', CHR ''m'']
         [[CHR ''C'', CHR ''A'', CHR ''F'', CHR 0xC9], ''Spam'']
        = ([CHR ''C'', CHR ''A'', CHR ''F'', CHR 0xC9], PyFloat (6 / 10))"
proof -
  have cafe: "lower [CHR ''C'', CHR ''A'', CHR ''F'', CHR 0xC9]
      = [CHR ''c'', CHR ''a'', CHR ''f'', CHR 0xE9]"
    "lower [CHR ''u'', CHR ''n'', CHR '' '', CHR ''c'', CHR ''a'', CHR ''f'', CHR 0xE9,
            CHR '' '', CHR ''+'', CHR '' '', CHR ''s'', CHR ''p'', CHR ''a'', CHR ''m'']
      = [CHR ''u'', CHR ''n'', CHR '' '', CHR ''c'', CHR ''a'', CHR ''f'', CHR 0xE9,
         CHR '' '', CHR ''+'', CHR '' '', CHR ''s'', CHR ''p'', CHR ''a'', CHR ''m'']"
    by code_simp+
  have s3: "sublist [CHR ''c'', CHR ''a'', CHR ''f'', CHR 0xE9]
      [CHR ''u'', CHR ''n'', CHR '' '', CHR ''c'', CHR ''a'', CHR ''f'', CHR 0xE9,
       CHR '' '', CHR ''+'', CHR '' '', CHR ''s'', CHR ''p'', CHR ''a'', CHR ''m'']"
    by (simp add: str_in_sublist [symmetric])
  have l: "json_loads (table_lib []) s = Inl (Exn JSONDecodeError ''Expecting value: line 1 column 1 (char 0)'')" for s
    by (simp add: table_lib_def)
  have low: "lower ''I think: SPAM'' = ''i think: spam''" "lower ''Spam'' = ''spam''"
    "lower ''Billing'' = ''billing''" "lower ''Sales'' = ''sales''"
    by (simp_all add: lower_def lower_char_def)
  have s1: "sublist ''spam'' ''i think: spam''"
    by (simp add: str_in_sublist [symmetric])
  have s2: "\<not> sublist ''billing'' ''i think: spam''" "\<not> sublist ''sales'' ''i think: spam''"
    by (simp_all add: str_in_sublist [symmetric])
  note t = fallback_first_match [of "table_lib []" "''I think: SPAM''"]
  from t [of "[''Billing'', ''Spam'', ''Pam'']"] l low s1 s2
  have a: "interpret_reply (table_lib []) ''I think: SPAM'' [''Billing'', ''Spam'', ''Pam'']
        = (''Spam'', PyFloat (6 / 10))"
    by (metis append_Cons append_Nil empty_iff empty_set set_ConsD)
  from t [of "[''Billing'', ''Sales'']"] l low s2
  have b: "interpret_reply (table_lib []) ''I think: SPAM'' [''Billing'', ''Sales'']
        = (''Other'', PyFloat (3 / 10))"
    by simp
  from t [of "[]"] l
  have c: "interpret_reply (table_lib []) ''This looks like Spam to me'' [''Billing'', ''Spam'']
        = (''Spam'', PyFloat (6 / 10))"
    by blast
  from fallback_first_match [of "table_lib []"
      "[CHR ''u'', CHR ''n'', CHR '' '', CHR ''c'', CHR ''a'', CHR ''f'', CHR 0xE9,
        CHR '' '', CHR ''+'', CHR '' '', CHR ''s'', CHR ''p'', CHR ''a'', CHR ''m'']"
      "[[CHR ''C'', CHR ''A'', CHR ''F'', CHR 0xC9], ''Spam'']"] l cafe s3
  have d: "interpret_reply (table_lib [])
         [CHR ''u'', CHR ''n'', CHR '' '', CHR ''c'', CHR ''a'', CHR ''f'', CHR 0xE9,
          CHR '' '', CHR ''+'', CHR '' '', CHR ''s'', CHR ''p'', CHR ''a'', CHR ''m'']
         [[CHR ''C'', CHR ''A'', CHR ''F'', CHR 0xC9], ''Spam'']
        = ([CHR ''C'', CHR ''A'', CHR ''F'', CHR 0xC9], PyFloat (6 / 10))"
    by (metis append_Nil empty_iff empty_set)
  show ?thesis using a b c d l low s1 s2 s3 cafe by simp
qed

text \<open>
  C4, as amended. When the raw reply decodes to a JSON object whose \<open>confidence\<close> field
  (0.5 when the key is absent) converts to a float, the label is \<open>str\<close> of the \<open>label\<close>
  field (\<open>Other\<close> when the key is absent) and the confidence is that float. When the
  conversion raises, the result is that of the loop over the labels, as if the reply had
  not decoded. In particular a reply that decodes to
  \<open>{"label": "Billing", "confidence": 0.9}\<close> gives \<open>("Billing", 0.9)\<close>, whatever the labels.
\<close>

theorem json_object_reply:
  \<open>(\<forall>kvs confidence.
       json_loads lib out = Inr (PyDict kvs)
       \<and> py_float lib (dict_get kvs ''confidence'' (PyFlt (PyFloat (5 / 10)))) = Inr confidence
       \<longrightarrow> interpret_reply lib out label_list
             = (py_str lib (dict_get kvs ''label'' (PyStr ''Other'')), confidence))
   \<and> (\<forall>kvs e.
       json_loads lib out = Inr (PyDict kvs)
       \<and> py_float lib (dict_get kvs ''confidence'' (PyFlt (PyFloat (5 / 10)))) = Inl e
       \<longrightarrow> interpret_reply lib out label_list = scan_labels (lower out) label_list)
   \<and> (json_loads lib ''{"label":"Billing","confidence":0.9}''
         = Inr (PyDict [(''label'', PyStr ''Billing''), (''confidence'', PyFlt (PyFloat (9 / 10)))])
       \<longrightarrow> interpret_reply lib ''{"label":"Billing","confidence":0.9}'' label_list
             = (''Billing'', PyFloat (9 / 10)))\<close>
  by (auto simp: interpret_reply_def parse_reply_dict dict_get_def py_float_def py_str_def)

theorem json_object_reply_witness:
  \<open>json_loads (table_lib [(''{}'', PyDict [])]) ''{}'' = Inr (PyDict [])
   \<and> py_float (table_lib [(''{}'', PyDict [])])
         (dict_get [] ''confidence'' (PyFlt (PyFloat (5 / 10)))) = Inr (PyFloat (5 / 10))
   \<and> interpret_reply (table_lib [(''{}'', PyDict [])]) ''{}'' [''Billing'']
         = (''Other'', PyFloat (5 / 10))
   \<and> json_loads (table_lib [(''{"label":"Billing","confidence":"high"}'',
                              PyDict [(''label'', PyStr ''Billing''), (''confidence'', PyStr ''high'')])])
         ''{"label":"Billing","confidence":"high"}''
       = Inr (PyDict [(''label'', PyStr ''Billing''), (''confidence'', PyStr ''high'')])
   \<and> py_float (table_lib [(''{"label":"Billing","confidence":"high"}'',
                              PyDict [(''label'', PyStr ''Billing''), (''confidence'', PyStr ''high'')])])
         (dict_get [(''label'', PyStr ''Billing''), (''confidence'', PyStr ''high'')]
            ''confidence'' (PyFlt (PyFloat (5 / 10))))
       = Inl (Exn ValueError ''could not convert string to float'')
   \<and> scan_labels (lower ''{"label":"Billing","confidence":"high"}'') [''Spam'', ''Sales'']
       = (''Other'', PyFloat (3 / 10))
   \<and> interpret_reply (table_lib [(''{"label":"Billing","confidence":"high"}'',
                              PyDict [(''label'', PyStr ''Billing''), (''confidence'', PyStr ''high'')])])
         ''{"label":"Billing","confidence":"high"}'' [''Spam'', ''Sales'']
       = (''Other'', PyFloat (3 / 10))
   \<and> json_loads (table_lib [(''{"label":"Billing","confidence":0.9}'',
                              PyDict [(''label'', PyStr ''Billing''),
                                      (''confidence'', PyFlt (PyFloat (9 / 10)))])])
         ''{"label":"Billing","confidence":0.9}''
       = Inr (PyDict [(''label'', PyStr ''Billing''), (''confidence'', PyFlt (PyFloat (9 / 10)))])
   \<and> interpret_reply (table_lib [(''{"label":"Billing","confidence":0.9}'',
                                   PyDict [(''label'', PyStr ''Billing''),
                                           (''confidence'', PyFlt (PyFloat (9 / 10)))])])
         ''{"label":"Billing","confidence":0.9}'' [''Billing'', ''Spam'']
       = (''Billing'', PyFloat (9 / 10))\<close>
proof -
  have sc: \<open>scan_labels (lower ''{"label":"Billing","confidence":"high"}'') [''Spam'', ''Sales'']
       = (''Other'', PyFloat (3 / 10))\<close>
    by (simp add: lower_def lower_char_def)
  show ?thesis
    using json_object_reply [of "table_lib [(''{}'', PyDict [])]" "''{}''" "[''Billing'']"]
      json_object_reply [of \<open>table_lib [(''{"label":"Billing","confidence":"high"}'',
                              PyDict [(''label'', PyStr ''Billing''), (''confidence'', PyStr ''high'')])]\<close>
        \<open>''{"label":"Billing","confidence":"high"}''\<close> "[''Spam'', ''Sales'']"]
      json_object_reply [of \<open>table_lib [(''{"label":"Billing","confidence":0.9}'',
                                   PyDict [(''label'', PyStr ''Billing''),
                                           (''confidence'', PyFlt (PyFloat (9 / 10)))])]\<close>
        "[]" "[''Billing'', ''Spam'']"]
      sc
    by (simp add: table_lib_def dict_get_def py_float_def py_str_def)
qed

text \<open>
  C4 as stated fails when the object's confidence does not convert: \<open>float(None)\<close>
  raises, the \<open>except\<close> branch runs, and the label of the object is dropped.
\<close>

theorem json_object_reply_counterexample:
  \<open>json_loads (table_lib [(''{"label":"Billing","confidence":null}'',
                            PyDict [(''label'', PyStr ''Billing''), (''confidence'', PyNone)])])
       ''{"label":"Billing","confidence":null}''
     = Inr (PyDict [(''label'', PyStr ''Billing''), (''confidence'', PyNone)])
   \<and> py_str (table_lib [(''{"label":"Billing","confidence":null}'',
                            PyDict [(''label'', PyStr ''Billing''), (''confidence'', PyNone)])])
         (dict_get [(''label'', PyStr ''Billing''), (''confidence'', PyNone)] ''label'' (PyStr ''Other''))
       = ''Billing''
   \<and> interpret_reply (table_lib [(''{"label":"Billing","confidence":null}'',
                            PyDict [(''label'', PyStr ''Billing''), (''confidence'', PyNone)])])
         ''{"label":"Billing","confidence":null}'' [''Spam'', ''Sales'']
       = (''Other'', PyFloat (3 / 10))\<close>
  by (simp add: table_lib_def dict_get_def py_str_def interpret_reply_def parse_reply_def
      py_get_def py_float_def lower_def lower_char_def)

text \<open>
  C10. When the endpoint answers with a 2xx status and a JSON object without the key
  \<open>response\<close>, the raw reply is the empty string; \<open>json.loads\<close> raising on the empty string,
  and every label being non-empty, the result is \<open>("Other", 0.3, "")\<close>.
\<close>

theorem missing_response_key:
  "net (request_of model text label_list few_shots) = Replied resp
   \<Longrightarrow> 200 \<le> status_code resp \<and> status_code resp < 300
   \<Longrightarrow> json_body resp = Inr (PyDict kvs)
   \<Longrightarrow> map_of kvs ''response'' = None
   \<Longrightarrow> json_loads lib [] = Inl e
   \<Longrightarrow> \<forall>L \<in> set label_list. L \<noteq> []
   \<Longrightarrow> read_response resp = Inr []
       \<and> snd (classify_text lib net model text label_list few_shots)
           = Inr (''Other'', PyFloat (3 / 10), [])"
proof -
  assume n: "net (request_of model text label_list few_shots) = Replied resp"
    and st: "200 \<le> status_code resp \<and> status_code resp < 300"
    and body: "json_body resp = Inr (PyDict kvs)"
    and absent: "map_of kvs ''response'' = None"
    and loads: "json_loads lib [] = Inl e"
    and labels: "\<forall>L \<in> set label_list. L \<noteq> []"
  have rd: "read_response resp = Inr []"
    using body absent by (simp add: read_response_def py_get_def dict_get_def py_strip_def strip_Nil)
  have "\<forall>M \<in> set label_list. \<not> str_in (lower M) (lower [])"
    using labels by (simp add: lower_def)
  then have "scan_labels (lower []) label_list = (''Other'', PyFloat (3 / 10))"
    by (rule scan_labels_none)
  then have "interpret_reply lib [] label_list = (''Other'', PyFloat (3 / 10))"
    using loads by (simp add: interpret_reply_fallback)
  moreover have "status_code resp \<noteq> 404" using st by simp
  ultimately show ?thesis
    using n st rd by (simp add: classify_text_unfold raise_for_status_2xx)
qed

theorem missing_response_key_witness:
  "always (Replied (ok_response (PyDict [(''done'', PyBool True)])))
       (request_of ''llama3.1:8b'' ''hello'' [''Billing'', ''Spam''] None)
     = Replied (ok_response (PyDict [(''done'', PyBool True)]))
   \<and> 200 \<le> status_code (ok_response (PyDict [(''done'', PyBool True)]))
   \<and> status_code (ok_response (PyDict [(''done'', PyBool True)])) < 300
   \<and> json_body (ok_response (PyDict [(''done'', PyBool True)])) = Inr (PyDict [(''done'', PyBool True)])
   \<and> map_of [(''done'', PyBool True)] ''response'' = None
   \<and> json_loads (table_lib []) [] = Inl (Exn JSONDecodeError ''Expecting value: line 1 column 1 (char 0)'')
   \<and> ''Billing'' \<noteq> [] \<and> ''Spam'' \<noteq> []
   \<and> snd (classify_text (table_lib []) (always (Replied (ok_response (PyDict [(''done'', PyBool True)]))))
             ''llama3.1:8b'' ''hello'' [''Billing'', ''Spam''] None)
       = Inr (''Other'', PyFloat (3 / 10), [])"
  using missing_response_key [of "always (Replied (ok_response (PyDict [(''done'', PyBool True)])))"
      "''llama3.1:8b''" "''hello''" "[''Billing'', ''Spam'']" None
      "ok_response (PyDict [(''done'', PyBool True)])" "[(''done'', PyBool True)]" "table_lib []"
      "Exn JSONDecodeError ''Expecting value: line 1 column 1 (char 0)''"]
  by (simp add: always_def ok_response_def table_lib_def)

text \<open>
  C1, as amended. Whenever \<open>classify_text\<close> returns a triple, either the raw reply was
  read as a JSON object (and the label and the confidence are what it holds, converted and
  not checked), or the label is one of the caller's labels, \<open>Other\<close> or \<open>ERROR\<close> and the
  confidence lies between 0 and 1.
\<close>

theorem result_label_and_confidence:
  "snd (classify_text lib net model text label_list few_shots) = Inr (label, confidence, raw) \<Longrightarrow>
     parse_reply lib raw = Inr (label, confidence)
     \<or> ((label \<in> set label_list \<or> label = ''Other'' \<or> label = ''ERROR'')
         \<and> in_unit_interval confidence)"
proof -
  assume r: "snd (classify_text lib net model text label_list few_shots) = Inr (label, confidence, raw)"
  let ?req = "request_of model text label_list few_shots"
  show ?thesis
  proof (cases "net ?req")
    case (Raised e)
    with r show ?thesis
      by (auto simp: classify_text_unfold request_failed_def in_unit_interval_def)
  next
    case (Replied resp)
    show ?thesis
    proof (cases "status_code resp = 404 \<or> (\<exists>e. raise_for_status resp = Inl e)")
      case True
      with r Replied show ?thesis
        by (auto simp: classify_text_unfold request_failed_def in_unit_interval_def
            split: if_splits)
    next
      case False
      then have ok: "status_code resp \<noteq> 404" "raise_for_status resp = Inr ()"
        by (auto intro: sum.exhaust [of "raise_for_status resp"])
      show ?thesis
      proof (cases "read_response resp")
        case (Inl e)
        with r Replied ok show ?thesis
          by (simp add: classify_text_unfold)
      next
        case (Inr out)
        with r Replied ok have "fst (interpret_reply lib out label_list) = label"
          "snd (interpret_reply lib out label_list) = confidence" and raw: "raw = out"
          by (auto simp: classify_text_unfold)
        then have res: "interpret_reply lib out label_list = (label, confidence)"
          by (simp add: prod_eq_iff)
        from interpret_reply_shape [OF res] raw show ?thesis
          by (auto simp: in_unit_interval_def)
      qed
    qed
  qed
qed

theorem result_label_and_confidence_witness:
  "snd (classify_text (table_lib []) (always (Raised (Exn ConnectionError ''Connection refused'')))
         ''llama3.1:8b'' ''hello'' [''Billing'', ''Spam''] None)
     = Inr (''ERROR'', PyFloat 0, ''Request failed: Connection refused'')
   \<and> in_unit_interval (PyFloat 0)"
  using result_label_and_confidence [of "table_lib []"
      "always (Raised (Exn ConnectionError ''Connection refused''))"
      "''llama3.1:8b''" "''hello''" "[''Billing'', ''Spam'']" None
      "''ERROR''" "PyFloat 0" "''Request failed: Connection refused''"]
  by (simp add: classify_text_unfold always_def request_failed_def in_unit_interval_def)

text \<open>
  C1 as stated fails on a reply that is a JSON object: its label need not be one
  of the caller's, nor its confidence at most 1.
\<close>

theorem result_label_and_confidence_counterexample:
  \<open>snd (classify_text
          (table_lib [(''{"label":"Urgent","confidence":7}'',
                       PyDict [(''label'', PyStr ''Urgent''), (''confidence'', PyInt 7)])])
          (always (Replied \<lparr> status_code = 200, reason = ''OK'',
                             resp_url = ''http://127.0.0.1:11434/api/generate'',
                             json_body = Inr (PyDict
                               [(''response'', PyStr ''{"label":"Urgent","confidence":7}'')]) \<rparr>))
          ''llama3.1:8b'' ''hello'' [''Billing'', ''Spam''] None)
     = Inr (''Urgent'', PyFloat 7, ''{"label":"Urgent","confidence":7}'')
   \<and> ''Urgent'' \<notin> set [''Billing'', ''Spam'']
   \<and> ''Urgent'' \<noteq> ''Other''
   \<and> ''Urgent'' \<noteq> ''ERROR''
   \<and> \<not> in_unit_interval (PyFloat 7)\<close>
  by (simp add: classify_text_unfold always_def raise_for_status_def read_response_def
      py_get_def dict_get_def py_strip_def strip_def is_space_def interpret_reply_def
      parse_reply_def table_lib_def py_float_def py_str_def in_unit_interval_def)

text \<open>
  C2, as amended. When \<open>requests.post\<close> raises, and when the endpoint answers with a status
  from 400 to 599, \<open>classify_text\<close> returns \<open>("ERROR", 0.0, "Request failed: ...")\<close> with
  the text of the failure and raises nothing; for 404 the text is the hint of the program,
  which names the base address.
\<close>

theorem request_failure_result:
  "(\<forall>e. net (request_of model text label_list few_shots) = Raised e \<longrightarrow>
       snd (classify_text lib net model text label_list few_shots)
         = Inr (''ERROR'', PyFloat 0, ''Request failed: '' @ exn_str e))
   \<and> (\<forall>resp. net (request_of model text label_list few_shots) = Replied resp
         \<and> status_code resp = 404 \<longrightarrow>
       snd (classify_text lib net model text label_list few_shots)
         = Inr (''ERROR'', PyFloat 0, ''Request failed: '' @ not_found_message)
       \<and> sublist OLLAMA_BASE (''Request failed: '' @ not_found_message))
   \<and> (\<forall>resp. net (request_of model text label_list few_shots) = Replied resp
         \<and> 400 \<le> status_code resp \<and> status_code resp < 500 \<and> status_code resp \<noteq> 404 \<longrightarrow>
       snd (classify_text lib net model text label_list few_shots)
         = Inr (''ERROR'', PyFloat 0,
                ''Request failed: '' @ digits (status_code resp) @ '' Client Error: ''
                @ reason resp @ '' for url: '' @ resp_url resp))
   \<and> (\<forall>resp. net (request_of model text label_list few_shots) = Replied resp
         \<and> 500 \<le> status_code resp \<and> status_code resp < 600 \<longrightarrow>
       snd (classify_text lib net model text label_list few_shots)
         = Inr (''ERROR'', PyFloat 0,
                ''Request failed: '' @ digits (status_code resp) @ '' Server Error: ''
                @ reason resp @ '' for url: '' @ resp_url resp))"
proof (intro conjI allI impI)
  fix e
  assume "net (request_of model text label_list few_shots) = Raised e"
  then show "snd (classify_text lib net model text label_list few_shots)
         = Inr (''ERROR'', PyFloat 0, ''Request failed: '' @ exn_str e)"
    by (simp add: classify_text_unfold request_failed_def)
next
  fix resp
  assume "net (request_of model text label_list few_shots) = Replied resp
         \<and> status_code resp = 404"
  then show "snd (classify_text lib net model text label_list few_shots)
         = Inr (''ERROR'', PyFloat 0, ''Request failed: '' @ not_found_message)"
    by (simp add: classify_text_unfold request_failed_def)
next
  show "sublist OLLAMA_BASE (''Request failed: '' @ not_found_message)"
    by (rule base_in_not_found)
next
  fix resp
  assume "net (request_of model text label_list few_shots) = Replied resp
         \<and> 400 \<le> status_code resp \<and> status_code resp < 500 \<and> status_code resp \<noteq> 404"
  then show "snd (classify_text lib net model text label_list few_shots)
         = Inr (''ERROR'', PyFloat 0,
                ''Request failed: '' @ digits (status_code resp) @ '' Client Error: ''
                @ reason resp @ '' for url: '' @ resp_url resp)"
    by (simp add: classify_text_unfold request_failed_def raise_for_status_def del: digits.simps)
next
  fix resp
  assume "net (request_of model text label_list few_shots) = Replied resp
         \<and> 500 \<le> status_code resp \<and> status_code resp < 600"
  then show "snd (classify_text lib net model text label_list few_shots)
         = Inr (''ERROR'', PyFloat 0,
                ''Request failed: '' @ digits (status_code resp) @ '' Server Error: ''
                @ reason resp @ '' for url: '' @ resp_url resp)"
    by (simp add: classify_text_unfold request_failed_def raise_for_status_def del: digits.simps)
qed

theorem request_failure_result_witness:
  "snd (classify_text (table_lib []) (always (Raised (Exn Timeout ''Read timed out.'')))
          ''llama3.1:8b'' ''hello'' [''Billing''] None)
     = Inr (''ERROR'', PyFloat 0, ''Request failed: Read timed out.'')
   \<and> snd (classify_text (table_lib [])
          (always (Replied (reply_with_status 404 ''Not Found'' (Inr (PyDict [])))))
          ''llama3.1:8b'' ''hello'' [''Billing''] None)
     = Inr (''ERROR'', PyFloat 0,
            ''Request failed: Ollama API path not found (404). Is the server running at http://127.0.0.1:11434? Try `ollama serve` or set OLLAMA_BASE.'')
   \<and> snd (classify_text (table_lib [])
          (always (Replied (reply_with_status 400 ''Bad Request'' (Inr (PyDict [])))))
          ''llama3.1:8b'' ''hello'' [''Billing''] None)
     = Inr (''ERROR'', PyFloat 0,
            ''Request failed: 400 Client Error: Bad Request for url: http://127.0.0.1:11434/api/generate'')
   \<and> snd (classify_text (table_lib [])
          (always (Replied (reply_with_status 500 ''Internal Server Error'' (Inr (PyDict [])))))
          ''llama3.1:8b'' ''hello'' [''Billing''] None)
     = Inr (''ERROR'', PyFloat 0,
            ''Request failed: 500 Server Error: Internal Server Error for url: http://127.0.0.1:11434/api/generate'')"
proof -
  have d: "digits 400 = ''400''" "digits 500 = ''500''"
    by simp_all
  show ?thesis
    using request_failure_result [of "always (Raised (Exn Timeout ''Read timed out.''))"
        "''llama3.1:8b''" "''hello''" "[''Billing'']" None "table_lib []"]
      request_failure_result [of "always (Replied (reply_with_status 404 ''Not Found'' (Inr (PyDict []))))"
        "''llama3.1:8b''" "''hello''" "[''Billing'']" None "table_lib []"]
      request_failure_result [of "always (Replied (reply_with_status 400 ''Bad Request'' (Inr (PyDict []))))"
        "''llama3.1:8b''" "''hello''" "[''Billing'']" None "table_lib []"]
      request_failure_result [of "always (Replied (reply_with_status 500 ''Internal Server Error'' (Inr (PyDict []))))"
        "''llama3.1:8b''" "''hello''" "[''Billing'']" None "table_lib []"]
    by (simp add: always_def reply_with_status_def not_found_message_def OLLAMA_BASE_def d
        del: digits.simps)
qed

text \<open>
  C2 as stated fails for a status that is neither a success nor an error for
  \<open>raise_for_status\<close>: a 304 reply passes the status checks, so an empty body makes
  \<open>resp.json()\<close> raise outside the \<open>try\<close>, and a JSON body is classified as usual.
\<close>

theorem request_failure_result_counterexample:
  "snd (classify_text (table_lib [])
          (always (Replied (reply_with_status 304 ''Not Modified''
             (Inl (Exn RequestsJSONDecodeError ''Expecting value: line 1 column 1 (char 0)'')))))
          ''llama3.1:8b'' ''hello'' [''Billing''] None)
     = Inl (Exn RequestsJSONDecodeError ''Expecting value: line 1 column 1 (char 0)'')
   \<and> snd (classify_text (table_lib [])
          (always (Replied (reply_with_status 304 ''Not Modified''
             (Inr (PyDict [(''response'', PyStr ''Billing'')])))))
          ''llama3.1:8b'' ''hello'' [''Billing''] None)
     = Inr (''Billing'', PyFloat (6 / 10), ''Billing'')"
  by (simp add: classify_text_unfold always_def reply_with_status_def raise_for_status_def
      read_response_def py_get_def dict_get_def py_strip_def strip_def is_space_def
      interpret_reply_def parse_reply_def table_lib_def lower_def lower_char_def)

text \<open>
  C6, as amended. On the success path the raw component of the result is the \<open>response\<close>
  string of the body with its leading and trailing whitespace removed; it is that string
  unchanged when the string is empty or neither starts nor ends with whitespace.
\<close>

theorem raw_response_is_stripped:
  "net (request_of model text label_list few_shots) = Replied resp
   \<Longrightarrow> 200 \<le> status_code resp \<and> status_code resp < 300
   \<Longrightarrow> json_body resp = Inr (PyDict kvs)
   \<Longrightarrow> map_of kvs ''response'' = Some (PyStr s)
   \<Longrightarrow> snd (classify_text lib net model text label_list few_shots)
         = Inr (fst (interpret_reply lib (strip s) label_list),
                snd (interpret_reply lib (strip s) label_list), strip s)
       \<and> (s = [] \<or> (\<not> is_space (hd s) \<and> \<not> is_space (last s)) \<longrightarrow> strip s = s)"
proof -
  assume "net (request_of model text label_list few_shots) = Replied resp"
    and "200 \<le> status_code resp \<and> status_code resp < 300"
    and "json_body resp = Inr (PyDict kvs)"
    and "map_of kvs ''response'' = Some (PyStr s)"
  then have "snd (classify_text lib net model text label_list few_shots)
         = Inr (fst (interpret_reply lib (strip s) label_list),
                snd (interpret_reply lib (strip s) label_list), strip s)"
    by (simp add: classify_text_unfold raise_for_status_2xx read_response_def py_get_def
        dict_get_def py_strip_def)
  moreover have "s = [] \<or> (\<not> is_space (hd s) \<and> \<not> is_space (last s)) \<longrightarrow> strip s = s"
    by (cases "s = []") (auto simp: strip_Nil strip_unchanged)
  ultimately show ?thesis by simp
qed

theorem raw_response_is_stripped_witness:
  "always (Replied (ok_response (PyDict [(''response'', PyStr ''Spam'')])))
       (request_of ''llama3.1:8b'' ''hello'' [''Billing'', ''Spam''] None)
     = Replied (ok_response (PyDict [(''response'', PyStr ''Spam'')]))
   \<and> 200 \<le> status_code (ok_response (PyDict [(''response'', PyStr ''Spam'')]))
   \<and> status_code (ok_response (PyDict [(''response'', PyStr ''Spam'')])) < 300
   \<and> json_body (ok_response (PyDict [(''response'', PyStr ''Spam'')]))
       = Inr (PyDict [(''response'', PyStr ''Spam'')])
   \<and> map_of [(''response'', PyStr ''Spam'')] ''response'' = Some (PyStr ''Spam'')
   \<and> \<not> is_space (hd ''Spam'') \<and> \<not> is_space (last ''Spam'')
   \<and> strip ''Spam'' = ''Spam''
   \<and> snd (classify_text (table_lib [])
            (always (Replied (ok_response (PyDict [(''response'', PyStr ''Spam'')]))))
            ''llama3.1:8b'' ''hello'' [''Billing'', ''Spam''] None)
       = Inr (''Spam'', PyFloat (6 / 10), ''Spam'')
   \<and> strip ([CHR 0xA0] @ ''Spam'' @ [CHR 0x85]) = ''Spam''
   \<and> snd (classify_text (table_lib [])
            (always (Replied (ok_response
               (PyDict [(''response'', PyStr ([CHR 0xA0] @ ''Spam'' @ [CHR 0x85]))]))))
            ''llama3.1:8b'' ''hello'' [''Billing'', ''Spam''] None)
       = Inr (''Spam'', PyFloat (6 / 10), ''Spam'')"
proof -
  have nb: "strip ([CHR 0xA0] @ ''Spam'' @ [CHR 0x85]) = ''Spam''"
    by (simp add: strip_def is_space_def)
  have i: "interpret_reply (table_lib []) ''Spam'' [''Billing'', ''Spam''] = (''Spam'', PyFloat (6 / 10))"
    by (simp add: interpret_reply_def parse_reply_def table_lib_def lower_def lower_char_def)
  have sp: "\<not> is_space (hd ''Spam'')" "\<not> is_space (last ''Spam'')"
    by (simp_all add: is_space_def)
  from raw_response_is_stripped [of "always (Replied (ok_response (PyDict [(''response'', PyStr ''Spam'')])))"
      "''llama3.1:8b''" "''hello''" "[''Billing'', ''Spam'']" None
      "ok_response (PyDict [(''response'', PyStr ''Spam'')])" "[(''response'', PyStr ''Spam'')]"
      "''Spam''" "table_lib []"] sp
  have "strip ''Spam'' = ''Spam''"
    and "snd (classify_text (table_lib [])
            (always (Replied (ok_response (PyDict [(''response'', PyStr ''Spam'')]))))
            ''llama3.1:8b'' ''hello'' [''Billing'', ''Spam''] None)
       = Inr (fst (interpret_reply (table_lib []) (strip ''Spam'') [''Billing'', ''Spam'']),
                snd (interpret_reply (table_lib []) (strip ''Spam'') [''Billing'', ''Spam'']), strip ''Spam'')"
    by (simp_all add: always_def ok_response_def)
  moreover
  from raw_response_is_stripped [of "always (Replied (ok_response
        (PyDict [(''response'', PyStr ([CHR 0xA0] @ ''Spam'' @ [CHR 0x85]))])))"
      "''llama3.1:8b''" "''hello''" "[''Billing'', ''Spam'']" None
      "ok_response (PyDict [(''response'', PyStr ([CHR 0xA0] @ ''Spam'' @ [CHR 0x85]))])"
      "[(''response'', PyStr ([CHR 0xA0] @ ''Spam'' @ [CHR 0x85]))]"
      "[CHR 0xA0] @ ''Spam'' @ [CHR 0x85]" "table_lib []"] nb i
  have "snd (classify_text (table_lib [])
            (always (Replied (ok_response
               (PyDict [(''response'', PyStr ([CHR 0xA0] @ ''Spam'' @ [CHR 0x85]))]))))
            ''llama3.1:8b'' ''hello'' [''Billing'', ''Spam''] None)
       = Inr (''Spam'', PyFloat (6 / 10), ''Spam'')"
    by (simp add: always_def ok_response_def)
  ultimately show ?thesis using i sp nb
    by (simp add: always_def ok_response_def)
qed

text \<open>
  C6 as stated fails when the model's text ends with a line feed.
\<close>

theorem raw_response_is_stripped_counterexample:
  "snd (classify_text (table_lib [])
          (always (Replied (ok_response (PyDict [(''response'', PyStr ''Spam\<newline>'')]))))
          ''llama3.1:8b'' ''hello'' [''Billing'', ''Spam''] None)
     = Inr (''Spam'', PyFloat (6 / 10), ''Spam'')
   \<and> ''Spam'' \<noteq> ''Spam\<newline>''"
  by (simp add: classify_text_unfold always_def ok_response_def raise_for_status_def
      read_response_def py_get_def dict_get_def py_strip_def strip_def is_space_def
      interpret_reply_def parse_reply_def table_lib_def lower_def lower_char_def)

text \<open>
  C7. Every call of \<open>classify_text\<close> sends exactly one request: a POST to
  \<open>/api/generate\<close> under the base address, with the JSON body
  \<open>{model, prompt, options: {temperature: 0.0, num_ctx: 2048}, stream: false}\<close> and a
  timeout of 120 seconds.
\<close>

theorem one_post_request:
  "fst (classify_text lib net model text label_list few_shots)
     = [\<lparr> req_method = ''POST'',
          req_url = ''http://127.0.0.1:11434/api/generate'',
          req_json = PyDict
            [(''model'', PyStr model),
             (''prompt'', PyStr (build_prompt label_list text (shots_of few_shots))),
             (''options'', PyDict [(''temperature'', PyFlt (PyFloat 0)), (''num_ctx'', PyInt 2048)]),
             (''stream'', PyBool False)],
          req_timeout = 120 \<rparr>]"
  by (simp add: classify_text_unfold request_of_def classify_request_def OLLAMA_BASE_def)

theorem one_post_request_witness:
  "fst (classify_text (table_lib []) (always (Raised (Exn Timeout ''Read timed out.'')))
          ''llama3.1:8b'' ''hello'' [''Billing''] None)
     = [\<lparr> req_method = ''POST'',
          req_url = ''http://127.0.0.1:11434/api/generate'',
          req_json = PyDict
            [(''model'', PyStr ''llama3.1:8b''),
             (''prompt'', PyStr (build_prompt [''Billing''] ''hello'' [])),
             (''options'', PyDict [(''temperature'', PyFlt (PyFloat 0)), (''num_ctx'', PyInt 2048)]),
             (''stream'', PyBool False)],
          req_timeout = 120 \<rparr>]"
  using one_post_request [of "table_lib []" "always (Raised (Exn Timeout ''Read timed out.''))"
      "''llama3.1:8b''" "''hello''" "[''Billing'']" None]
  by (simp add: shots_of_def)

text \<open>
  C5, as amended. For every list of labels, input text and few-shot examples, the prompt is
  the system block between the two \<open><<SYS>>\<close> marks, a blank line, the examples, a blank
  line, and \<open>Text: \<close> with the input text, a line feed and \<open>Label:\<close>; it neither starts
  nor ends with whitespace. The system block holds the instruction clause, which lists
  \<open>repr\<close> of each label in the caller's order between brackets: distinct labels have
  distinct entries, every label's entry occurs in the clause, and a label of printable
  characters without single quote and backslash occurs there between single quotes.
\<close>

theorem prompt_shape:
  "build_prompt label_list text few_shots =
     ''<<SYS>>'' @ system_block label_list @ ''<<SYS>>'' @ ''\<newline>\<newline>''
     @ shots_block few_shots @ ''\<newline>\<newline>'' @ ''Text: '' @ text @ ''\<newline>Label:''
   \<and> sublist (instruction_clause label_list) (system_block label_list)
   \<and> instruction_clause label_list =
       ''Choose exactly one label from ['' @ join '', '' (map repr_str label_list) @ ''].''
   \<and> (distinct label_list \<longrightarrow> distinct (map repr_str label_list))
   \<and> (\<forall>L \<in> set label_list. sublist (repr_str L) (instruction_clause label_list))
   \<and> (\<forall>L \<in> set label_list. plain_label L \<longrightarrow>
         sublist ([CHR 0x27] @ L @ [CHR 0x27]) (instruction_clause label_list))
   \<and> suffix (text @ ''\<newline>Label:'') (build_prompt label_list text few_shots)
   \<and> build_prompt label_list text few_shots \<noteq> []
   \<and> \<not> is_space (hd (build_prompt label_list text few_shots))
   \<and> \<not> is_space (last (build_prompt label_list text few_shots))"
proof (intro conjI)
  show "build_prompt label_list text few_shots =
     ''<<SYS>>'' @ system_block label_list @ ''<<SYS>>'' @ ''\<newline>\<newline>''
     @ shots_block few_shots @ ''\<newline>\<newline>'' @ ''Text: '' @ text @ ''\<newline>Label:''"
    by (rule build_prompt_eq)
  show "sublist (instruction_clause label_list) (system_block label_list)"
    by (rule clause_in_system)
  show "instruction_clause label_list =
       ''Choose exactly one label from ['' @ join '', '' (map repr_str label_list) @ ''].''"
    by (simp add: instruction_clause_def repr_list_def)
  show "distinct label_list \<longrightarrow> distinct (map repr_str label_list)"
    by (simp add: distinct_repr)
  show "\<forall>L \<in> set label_list. sublist (repr_str L) (instruction_clause label_list)"
    by (simp add: entry_in_clause)
  show "\<forall>L \<in> set label_list. plain_label L \<longrightarrow>
         sublist ([CHR 0x27] @ L @ [CHR 0x27]) (instruction_clause label_list)"
  proof (intro ballI impI)
    fix L
    assume "L \<in> set label_list" and "plain_label L"
    then show "sublist ([CHR 0x27] @ L @ [CHR 0x27]) (instruction_clause label_list)"
      using entry_in_clause [of L label_list] repr_str_plain [of L] by simp
  qed
  have "build_prompt label_list text few_shots =
     (''<<SYS>>'' @ system_block label_list @ ''<<SYS>>'' @ ''\<newline>\<newline>''
     @ shots_block few_shots @ ''\<newline>\<newline>'' @ ''Text: '') @ (text @ ''\<newline>Label:'')"
    by (simp add: build_prompt_eq)
  then show "suffix (text @ ''\<newline>Label:'') (build_prompt label_list text few_shots)"
    by (rule suffixI)
  show "build_prompt label_list text few_shots \<noteq> []"
    by (simp add: build_prompt_eq)
  show "\<not> is_space (hd (build_prompt label_list text few_shots))"
    by (simp add: build_prompt_eq is_space_def)
  have "last (build_prompt label_list text few_shots) = CHR '':''"
    by (simp add: build_prompt_eq)
  then show "\<not> is_space (last (build_prompt label_list text few_shots))"
    by (simp add: is_space_def)
qed

theorem prompt_shape_witness:
  "distinct [''Billing'', ''Spam'']
   \<and> distinct (map repr_str [''Billing'', ''Spam''])
   \<and> plain_label ''Billing'' \<and> plain_label ''Spam''
   \<and> sublist ([CHR 0x27] @ ''Billing'' @ [CHR 0x27]) (instruction_clause [''Billing'', ''Spam''])
   \<and> sublist ([CHR 0x27] @ ''Spam'' @ [CHR 0x27]) (instruction_clause [''Billing'', ''Spam''])
   \<and> instruction_clause [''Billing'', ''Spam'']
       = ''Choose exactly one label from ['' @ [CHR 0x27] @ ''Billing'' @ [CHR 0x27] @ '', ''
         @ [CHR 0x27] @ ''Spam'' @ [CHR 0x27] @ ''].''
   \<and> suffix (''hello'' @ ''\<newline>Label:'')
         (build_prompt [''Billing'', ''Spam''] ''hello''
            [\<lparr>shot_text = ''Win a prize'', shot_label = ''Spam''\<rparr>])
   \<and> \<not> is_space (hd (build_prompt [''Billing'', ''Spam''] ''hello''
            [\<lparr>shot_text = ''Win a prize'', shot_label = ''Spam''\<rparr>]))
   \<and> \<not> is_space (last (build_prompt [''Billing'', ''Spam''] ''hello''
            [\<lparr>shot_text = ''Win a prize'', shot_label = ''Spam''\<rparr>]))
   \<and> repr_str [CHR 0xA0, CHR 0xE9]
       = [CHR 0x27, CHR 0x5C, CHR ''x'', CHR ''a'', CHR ''0'', CHR 0xE9, CHR 0x27]
   \<and> sublist [CHR 0x27, CHR 0x5C, CHR ''x'', CHR ''a'', CHR ''0'', CHR 0xE9, CHR 0x27]
         (instruction_clause [''Billing'', [CHR 0xA0, CHR 0xE9]])"
proof -
  have nb: "repr_str [CHR 0xA0, CHR 0xE9]
       = [CHR 0x27, CHR 0x5C, CHR ''x'', CHR ''a'', CHR ''0'', CHR 0xE9, CHR 0x27]"
    by (simp add: repr_str_def repr_quote_def repr_char_def)
  from prompt_shape [of "[''Billing'', [CHR 0xA0, CHR 0xE9]]" "[]" "[]",
      THEN conjunct2, THEN conjunct2, THEN conjunct2, THEN conjunct2, THEN conjunct1] nb
  have g: "sublist [CHR 0x27, CHR 0x5C, CHR ''x'', CHR ''a'', CHR ''0'', CHR 0xE9, CHR 0x27]
         (instruction_clause [''Billing'', [CHR 0xA0, CHR 0xE9]])"
    by simp
  have p: "plain_label ''Billing''" "plain_label ''Spam''"
    by (simp_all add: plain_label_def)
  have r: "repr_str ''Billing'' = [CHR 0x27] @ ''Billing'' @ [CHR 0x27]"
    "repr_str ''Spam'' = [CHR 0x27] @ ''Spam'' @ [CHR 0x27]"
    by (simp_all add: repr_str_def repr_quote_def repr_char_def)
  have d: "distinct [''Billing'', ''Spam'']"
    by simp
  note t = prompt_shape [of "[''Billing'', ''Spam'']" "''hello''"
      "[\<lparr>shot_text = ''Win a prize'', shot_label = ''Spam''\<rparr>]"]
  note t3 = t [THEN conjunct2, THEN conjunct2]
  note t4 = t3 [THEN conjunct2]
  note t6 = t4 [THEN conjunct2, THEN conjunct2]
  note t7 = t6 [THEN conjunct2]
  from t3 [THEN conjunct1] r have c: "instruction_clause [''Billing'', ''Spam'']
       = ''Choose exactly one label from ['' @ [CHR 0x27] @ ''Billing'' @ [CHR 0x27] @ '', ''
         @ [CHR 0x27] @ ''Spam'' @ [CHR 0x27] @ ''].''"
    by simp
  from t4 [THEN conjunct1] d have e: "distinct (map repr_str [''Billing'', ''Spam''])"
    by blast
  from t6 [THEN conjunct1] p
  have f: "sublist ([CHR 0x27] @ ''Billing'' @ [CHR 0x27]) (instruction_clause [''Billing'', ''Spam''])"
    "sublist ([CHR 0x27] @ ''Spam'' @ [CHR 0x27]) (instruction_clause [''Billing'', ''Spam''])"
    by simp_all
  show ?thesis
    using d e p f c t7 nb g by blast
qed

text \<open>
  C5 as stated fails: with the labels \<open>Spam\<close>, \<open>Not Spam\<close> and \<open>R\D\<close> the clause
  holds \<open>Spam\<close> twice, and does not hold \<open>R\D\<close> at all, whose backslash is doubled.
\<close>

theorem prompt_shape_counterexample:
  "[''Spam'', ''Not Spam'', [CHR ''R'', CHR 0x5C, CHR ''D'']] \<noteq> []
   \<and> distinct (map strip [''Spam'', ''Not Spam'', [CHR ''R'', CHR 0x5C, CHR ''D'']])
   \<and> occurrences ''Spam''
         (instruction_clause [''Spam'', ''Not Spam'', [CHR ''R'', CHR 0x5C, CHR ''D'']]) = 2
   \<and> occurrences [CHR ''R'', CHR 0x5C, CHR ''D'']
         (instruction_clause [''Spam'', ''Not Spam'', [CHR ''R'', CHR 0x5C, CHR ''D'']]) = 0"
  by (simp add: strip_def is_space_def instruction_clause_def repr_list_def repr_str_def
      repr_quote_def repr_char_def)

text \<open>
  C8. When no file exists at the path, the path can be opened, the text is not blank and a
  label is chosen, saving creates the file with the header row \<open>text,label,subject,from\<close>
  followed by the one row of the item; saving a second item to the same path adds its one
  row after that and no second header.
\<close>

theorem save_creates_then_appends:
  assumes "\<not> path_exists fs p" and "open_error fs p = None"
    and "strip t1 \<noteq> []" and "l1 \<noteq> []" and "strip t2 \<noteq> []" and "l2 \<noteq> []"
  shows "files (fst (save_item fs p t1 (Some l1) s1 f1)) p
           = Some (''text,label,subject,from'' @ [CHR 0x0D, CHR 0x0A]
                   @ csv_row [strip t1, l1, strip s1, strip f1])
       \<and> files (fst (save_item (fst (save_item fs p t1 (Some l1) s1 f1)) p t2 (Some l2) s2 f2)) p
           = Some (''text,label,subject,from'' @ [CHR 0x0D, CHR 0x0A]
                   @ csv_row [strip t1, l1, strip s1, strip f1]
                   @ csv_row [strip t2, l2, strip s2, strip f2])"
proof -
  let ?fs1 = "fs\<lparr>files := (files fs)(p \<mapsto> csv_row fieldnames @ csv_row [strip t1, l1, strip s1, strip f1])\<rparr>"
  from assms have one: "fst (save_item fs p t1 (Some l1) s1 f1) = ?fs1"
    by (simp add: save_item_new)
  have "files ?fs1 p = Some (csv_row fieldnames @ csv_row [strip t1, l1, strip s1, strip f1])"
    and "open_error ?fs1 p = None"
    using assms(2) by simp_all
  then have two: "save_item ?fs1 p t2 (Some l2) s2 f2 =
     (?fs1\<lparr>files := (files ?fs1)(p \<mapsto> (csv_row fieldnames @ csv_row [strip t1, l1, strip s1, strip f1])
          @ csv_row [strip t2, l2, strip s2, strip f2])\<rparr>,
      [St_success (''Saved to '' @ p)])"
    using assms(5,6) by (rule save_item_old)
  show ?thesis
    unfolding one two by (simp add: header_row)
qed

theorem save_creates_then_appends_witness:
  \<open>\<not> path_exists empty_disk ''labeled_manual.csv''
   \<and> open_error empty_disk ''labeled_manual.csv'' = None
   \<and> strip '' Invoice overdue, pay "now" '' \<noteq> [] \<and> ''Billing'' \<noteq> []
   \<and> strip ''Win a prize'' \<noteq> [] \<and> ''Spam'' \<noteq> []
   \<and> files (fst (save_item empty_disk ''labeled_manual.csv''
                    '' Invoice overdue, pay "now" '' (Some ''Billing'') (''Re: invoice'' @ [CHR 0xA0]) ''bob'')) ''labeled_manual.csv''
       = Some (''text,label,subject,from'' @ [CHR 0x0D, CHR 0x0A]
               @ ''"Invoice overdue, pay ""now""",Billing,Re: invoice,bob'' @ [CHR 0x0D, CHR 0x0A])
   \<and> files (fst (save_item
                    (fst (save_item empty_disk ''labeled_manual.csv''
                       '' Invoice overdue, pay "now" '' (Some ''Billing'') (''Re: invoice'' @ [CHR 0xA0]) ''bob''))
                    ''labeled_manual.csv'' ''Win a prize'' (Some ''Spam'') [] [])) ''labeled_manual.csv''
       = Some (''text,label,subject,from'' @ [CHR 0x0D, CHR 0x0A]
               @ ''"Invoice overdue, pay ""now""",Billing,Re: invoice,bob'' @ [CHR 0x0D, CHR 0x0A]
               @ ''Win a prize,Spam,,'' @ [CHR 0x0D, CHR 0x0A])
   \<and> strip [CHR 0xA0, CHR 0x20] = []
   \<and> save_item empty_disk ''labeled_manual.csv'' [CHR 0xA0, CHR 0x20] (Some ''Billing'') [] []
       = (empty_disk, [St_error ''Please paste some text before saving.''])\<close>
proof -
  have b: "strip [CHR 0xA0, CHR 0x20] = []"
    by (simp add: strip_def is_space_def)
  then have n: "save_item empty_disk ''labeled_manual.csv'' [CHR 0xA0, CHR 0x20] (Some ''Billing'') [] []
       = (empty_disk, [St_error ''Please paste some text before saving.''])"
    by (simp add: save_item_def)
  have s: \<open>strip '' Invoice overdue, pay "now" '' = ''Invoice overdue, pay "now"''\<close>
    "strip ''Win a prize'' = ''Win a prize''" "strip (''Re: invoice'' @ [CHR 0xA0]) = ''Re: invoice''"
    "strip ''bob'' = ''bob''" "strip [] = []"
    by (simp_all add: strip_def is_space_def)
  have r: \<open>csv_row [''Invoice overdue, pay "now"'', ''Billing'', ''Re: invoice'', ''bob'']
      = ''"Invoice overdue, pay ""now""",Billing,Re: invoice,bob'' @ [CHR 0x0D, CHR 0x0A]\<close>
    "csv_row [''Win a prize'', ''Spam'', [], []] = ''Win a prize,Spam,,'' @ [CHR 0x0D, CHR 0x0A]"
    by (simp_all add: csv_row_def csv_field_def csv_special_def)
  have e: "\<not> path_exists empty_disk ''labeled_manual.csv''"
    "open_error empty_disk ''labeled_manual.csv'' = None"
    by (simp_all add: empty_disk_def path_exists_def)
  from save_creates_then_appends [of empty_disk "''labeled_manual.csv''"
      \<open>'' Invoice overdue, pay "now" ''\<close> "''Billing''" "''Win a prize''" "''Spam''"
      "''Re: invoice'' @ [CHR 0xA0]" "''bob''" "[]" "[]"] e s r
  show ?thesis using b n by simp
qed

text \<open>
  C9. When opening the image or fixing its orientation raises, the page shows the error
  and sends no request. When the button is pressed and the endpoint answers with a 2xx
  status and a JSON object whose \<open>response\<close> is absent, false as a truth value (\<open>null\<close>, the
  empty string) or blank, the page shows the warning
  \<open>No caption returned.\<close> and the run ends without an exception.
\<close>

theorem caption_page_failures:
  "(\<forall>e. read_image lib (up_bytes up) = Inl e \<longrightarrow>
       caption_page lib net (Some up) prompt pressed
         = ([St_error (''Could not read that image: '' @ exn_str e)], [], None))
   \<and> (\<forall>img jpeg r kvs.
         read_image lib (up_bytes up) = Inr img \<and> save_rgb_jpeg lib img = Inr jpeg
         \<and> net (caption_request prompt (b64encode lib jpeg)) = Replied r
         \<and> 200 \<le> status_code r \<and> status_code r < 300
         \<and> json_body r = Inr (PyDict kvs)
         \<and> (map_of kvs ''response'' = None
             \<or> (\<exists>v. map_of kvs ''response'' = Some v \<and> \<not> truthy v)
             \<or> (\<exists>s. map_of kvs ''response'' = Some (PyStr s) \<and> strip s = []))
         \<longrightarrow> caption_page lib net (Some up) prompt True
               = (show_image (up_name up) img @ [St_warning ''No caption returned.''],
                  [caption_request prompt (b64encode lib jpeg)], None))"
proof (intro conjI allI impI)
  fix e
  assume "read_image lib (up_bytes up) = Inl e"
  then show "caption_page lib net (Some up) prompt pressed
         = ([St_error (''Could not read that image: '' @ exn_str e)], [], None)"
    by (simp add: caption_page_def)
next
  fix img jpeg r kvs
  assume a: "read_image lib (up_bytes up) = Inr img \<and> save_rgb_jpeg lib img = Inr jpeg
         \<and> net (caption_request prompt (b64encode lib jpeg)) = Replied r
         \<and> 200 \<le> status_code r \<and> status_code r < 300
         \<and> json_body r = Inr (PyDict kvs)
         \<and> (map_of kvs ''response'' = None
             \<or> (\<exists>v. map_of kvs ''response'' = Some v \<and> \<not> truthy v)
             \<or> (\<exists>s. map_of kvs ''response'' = Some (PyStr s) \<and> strip s = []))"
  then have st: "raise_for_status r = Inr ()"
    by (simp add: raise_for_status_2xx)
  from a have body: "json_body r = Inr (PyDict kvs)"
    by simp
  from a consider (absent) "map_of kvs ''response'' = None"
    | (falsy) v where "map_of kvs ''response'' = Some v" "\<not> truthy v"
    | (blank) s where "map_of kvs ''response'' = Some (PyStr s)" "strip s = []"
    by auto
  then have "caption_reply (Replied r) = Inr [St_warning ''No caption returned.'']"
  proof cases
    case absent
    with st body show ?thesis
      by (simp add: caption_reply_def py_get_def dict_get_def py_strip_def strip_Nil)
  next
    case falsy
    with st body show ?thesis
      by (simp add: caption_reply_def py_get_def dict_get_def py_strip_def strip_Nil)
  next
    case blank
    with st body show ?thesis
      by (simp add: caption_reply_def py_get_def dict_get_def py_strip_def strip_Nil)
  qed
  with a show "caption_page lib net (Some up) prompt True
               = (show_image (up_name up) img @ [St_warning ''No caption returned.''],
                  [caption_request prompt (b64encode lib jpeg)], None)"
    by (simp add: caption_page_def Let_def)
qed

theorem caption_page_failures_witness:
  "read_image (table_imglib []) (up_bytes \<lparr>up_name = ''a.png'', up_bytes = ''junk''\<rparr>)
     = Inl (Exn OSError ''cannot identify image file'')
   \<and> caption_page (table_imglib []) (always (Raised (Exn Timeout ''Read timed out.'')))
        (Some \<lparr>up_name = ''a.png'', up_bytes = ''junk''\<rparr>) ''Describe this photo.'' True
     = ([St_error ''Could not read that image: cannot identify image file''], [], None)
   \<and> read_image (table_imglib [(''PNG1'', sample_image)])
        (up_bytes \<lparr>up_name = ''a.png'', up_bytes = ''PNG1''\<rparr>) = Inr sample_image
   \<and> map_of [(''response'', PyStr [CHR 0xA0, CHR 0x85])] ''response'' = Some (PyStr [CHR 0xA0, CHR 0x85])
   \<and> strip [CHR 0xA0, CHR 0x85] = []
   \<and> caption_page (table_imglib [(''PNG1'', sample_image)])
        (always (Replied (ok_response (PyDict [(''response'', PyStr [CHR 0xA0, CHR 0x85])]))))
        (Some \<lparr>up_name = ''a.png'', up_bytes = ''PNG1''\<rparr>) ''Describe this photo.'' True
     = ([St_image_caption ''a.png'' 640 480 ''PNG'', St_image,
         St_write ''No EXIF metadata found.'', St_warning ''No caption returned.''],
        [caption_request ''Describe this photo.'' ''SlBFRw==''], None)
   \<and> map_of [(''done'', PyBool True)] ''response'' = None
   \<and> caption_page (table_imglib [(''PNG1'', sample_image)])
        (always (Replied (ok_response (PyDict [(''done'', PyBool True)]))))
        (Some \<lparr>up_name = ''a.png'', up_bytes = ''PNG1''\<rparr>) ''Describe this photo.'' True
     = ([St_image_caption ''a.png'' 640 480 ''PNG'', St_image,
         St_write ''No EXIF metadata found.'', St_warning ''No caption returned.''],
        [caption_request ''Describe this photo.'' ''SlBFRw==''], None)"
proof -
  have s: "strip [CHR 0xA0, CHR 0x85] = []"
    by (simp add: strip_def is_space_def)
  have sh: "show_image ''a.png'' sample_image
      = [St_image_caption ''a.png'' 640 480 ''PNG'', St_image, St_write ''No EXIF metadata found.'']"
    by (simp add: show_image_def sample_image_def exif_lines_def)
  have r1: "read_image (table_imglib []) ''junk'' = Inl (Exn OSError ''cannot identify image file'')"
    by (simp add: read_image_def table_imglib_def)
  have r2: "read_image (table_imglib [(''PNG1'', sample_image)]) ''PNG1'' = Inr sample_image"
    by (simp add: read_image_def table_imglib_def)
  have l: "save_rgb_jpeg (table_imglib [(''PNG1'', sample_image)]) sample_image = Inr ''JPEG''"
    "b64encode (table_imglib [(''PNG1'', sample_image)]) ''JPEG'' = ''SlBFRw==''"
    by (simp_all add: table_imglib_def)
  from caption_page_failures [of "table_imglib []" "\<lparr>up_name = ''a.png'', up_bytes = ''junk''\<rparr>"
      "always (Raised (Exn Timeout ''Read timed out.''))" "''Describe this photo.''" True] r1
  have a: "caption_page (table_imglib []) (always (Raised (Exn Timeout ''Read timed out.'')))
        (Some \<lparr>up_name = ''a.png'', up_bytes = ''junk''\<rparr>) ''Describe this photo.'' True
     = ([St_error ''Could not read that image: cannot identify image file''], [], None)"
    by simp
  from caption_page_failures [of "table_imglib [(''PNG1'', sample_image)]"
      "\<lparr>up_name = ''a.png'', up_bytes = ''PNG1''\<rparr>"
      "always (Replied (ok_response (PyDict [(''response'', PyStr [CHR 0xA0, CHR 0x85])])))"
      "''Describe this photo.''" True] r2 l s sh
  have b: "caption_page (table_imglib [(''PNG1'', sample_image)])
        (always (Replied (ok_response (PyDict [(''response'', PyStr [CHR 0xA0, CHR 0x85])]))))
        (Some \<lparr>up_name = ''a.png'', up_bytes = ''PNG1''\<rparr>) ''Describe this photo.'' True
     = ([St_image_caption ''a.png'' 640 480 ''PNG'', St_image,
         St_write ''No EXIF metadata found.'', St_warning ''No caption returned.''],
        [caption_request ''Describe this photo.'' ''SlBFRw==''], None)"
    by (simp add: always_def ok_response_def)
  from caption_page_failures [of "table_imglib [(''PNG1'', sample_image)]"
      "\<lparr>up_name = ''a.png'', up_bytes = ''PNG1''\<rparr>"
      "always (Replied (ok_response (PyDict [(''done'', PyBool True)])))"
      "''Describe this photo.''" True] r2 l sh
  have c: "caption_page (table_imglib [(''PNG1'', sample_image)])
        (always (Replied (ok_response (PyDict [(''done'', PyBool True)]))))
        (Some \<lparr>up_name = ''a.png'', up_bytes = ''PNG1''\<rparr>) ''Describe this photo.'' True
     = ([St_image_caption ''a.png'' 640 480 ''PNG'', St_image,
         St_write ''No EXIF metadata found.'', St_warning ''No caption returned.''],
        [caption_request ''Describe this photo.'' ''SlBFRw==''], None)"
    by (simp add: always_def ok_response_def)
  show ?thesis using a b c r1 r2 s by simp
qed

end
